theory Spec2Isabelle
  imports Complex_Main
begin

section \<open>Numbers and array helpers\<close>

text \<open>
  The program is TypeScript; every number is an IEEE double. The embedding reads a
  \<^verbatim>\<open>number\<close> as a \<^typ>\<open>real\<close>, so it follows the program on finite inputs up to
  the rounding error of double arithmetic. Where that rounding error decides the
  result, in the confidence of the structure score, the embedding rounds to doubles
  as the program does (\<open>to_double\<close> below). It has no \<^verbatim>\<open>NaN\<close> and no infinities:
  where the program divides by zero (a price or a window's total volume that is zero)
  it computes with \<^verbatim>\<open>Infinity\<close> or \<^verbatim>\<open>NaN\<close>, while HOL gives \<open>x / 0 = 0\<close>,
  and the embedding does not follow the program there. The divisors in question are
  prices, which the callers keep positive (they drop bars whose close is not), and
  average volumes. Counts and array lengths are \<^typ>\<open>nat\<close>.

  Field names of the source's interfaces are kept, with a prefix naming the interface
  (\<open>c_\<close> for \<^verbatim>\<open>CandleData\<close>, \<open>ob_\<close> for \<^verbatim>\<open>OrderBlock\<close>, and so on), since
  several interfaces share the names \<^verbatim>\<open>type\<close>, \<^verbatim>\<open>high\<close>, \<^verbatim>\<open>low\<close>.
  String-literal unions become datatypes; where two unions share a literal, the
  constructors of one of them carry a prefix. Fields built for display only
  (\<^verbatim>\<open>description\<close>, \<^verbatim>\<open>indicators\<close>, \<^verbatim>\<open>reasoning\<close>, \<^verbatim>\<open>keyFactors\<close>,
  \<^verbatim>\<open>warnings\<close>, \<^verbatim>\<open>opportunities\<close>, \<^verbatim>\<open>heatmapMatrix\<close>, \<^verbatim>\<open>symbol\<close>) are
  not modelled: no branch of the modelled functions reads them. A loop that pushes
  onto an array is the concatenation of what each round pushes.
\<close>

definition js_round :: "real \<Rightarrow> real" where
  \<comment> \<open>\<^verbatim>\<open>Math.round\<close>: the nearest integer, a tie going up.\<close>
  "js_round x = of_int \<lfloor>x + 1 / 2\<rfloor>"

definition slice_last :: "nat \<Rightarrow> 'a list \<Rightarrow> 'a list" where
  \<comment> \<open>\<^verbatim>\<open>xs.slice(-n)\<close> for \<open>n > 0\<close>: the last \<open>n\<close> elements, all of them when there are fewer.\<close>
  "slice_last n xs = drop (length xs - n) xs"

definition max_list :: "real list \<Rightarrow> real" where
  \<comment> \<open>\<^verbatim>\<open>Math.max(...xs)\<close> on a non-empty array.\<close>
  "max_list xs = fold max (tl xs) (hd xs)"

definition min_list :: "real list \<Rightarrow> real" where
  \<comment> \<open>\<^verbatim>\<open>Math.min(...xs)\<close> on a non-empty array.\<close>
  "min_list xs = fold min (tl xs) (hd xs)"

definition slice :: "nat \<Rightarrow> nat \<Rightarrow> 'a list \<Rightarrow> 'a list" where
  \<comment> \<open>\<^verbatim>\<open>xs.slice(i, j)\<close> for \<open>0 \<le> i\<close> and \<open>0 \<le> j\<close>.\<close>
  "slice i j xs = take (j - i) (drop i xs)"

definition reduce_sum :: "('a \<Rightarrow> real) \<Rightarrow> 'a list \<Rightarrow> real" where
  \<comment> \<open>\<^verbatim>\<open>xs.reduce((sum, c) => sum + f(c), 0)\<close>.\<close>
  "reduce_sum f xs = foldl (\<lambda>sum c. sum + f c) 0 xs"

subsection \<open>Rounding to a double\<close>

text \<open>
  An IEEE double has a significand of 53 bits, and an arithmetic operation returns the
  double nearest to the exact result, a tie going to the even significand. For
  \<open>2\<^sup>e \<le> \<bar>x\<bar> < 2\<^sup>e\<^sup>+\<^sup>1\<close> the doubles around \<open>x\<close> are the multiples of \<open>2\<^sup>e\<^sup>-\<^sup>5\<^sup>2\<close>.
  Overflow and subnormal numbers are left out: the values rounded here lie between
  \<open>1/2\<close> and 100.
\<close>

definition round_half_even :: "real \<Rightarrow> int" where
  \<comment> \<open>The nearest integer, a tie going to the even one.\<close>
  "round_half_even y =
     (let f = \<lfloor>y\<rfloor>; r = y - of_int f
      in if r < 1 / 2 then f else if r > 1 / 2 then f + 1 else if even f then f else f + 1)"

fun binade :: "nat \<Rightarrow> real \<Rightarrow> int" where
  \<comment> \<open>The exponent \<open>e\<close> with \<open>2\<^sup>e \<le> x < 2\<^sup>e\<^sup>+\<^sup>1\<close> for \<open>x > 0\<close>, found by halving or doubling
      \<open>x\<close> at most \<open>n\<close> times.\<close>
  "binade 0 x = 0"
| "binade (Suc n) x =
     (if x \<ge> 2 then binade n (x / 2) + 1
      else if x < 1 then binade n (x * 2) - 1
      else 0)"

definition pow2 :: "int \<Rightarrow> real" where
  "pow2 e = (if e \<ge> 0 then 2 ^ nat e else 1 / 2 ^ nat (- e))"

definition to_double :: "real \<Rightarrow> real" where
  \<comment> \<open>The double nearest to \<open>x\<close>; the exponents of doubles lie within 1100 of zero.\<close>
  "to_double x =
     (if x = 0 then 0
      else let e = binade 1100 \<bar>x\<bar>; ulp = pow2 (e - 52)
           in sgn x * (of_int (round_half_even (\<bar>x\<bar> / ulp)) * ulp))"

section \<open>Shared vocabularies\<close>

datatype Direction = BULLISH | BEARISH | NEUTRAL

datatype Strength = STRONG | MODERATE | WEAK

datatype Trend = STRONG_BULLISH | TREND_BULLISH | TREND_NEUTRAL | TREND_BEARISH | STRONG_BEARISH

datatype VolumeState = VOL_HIGH | VOL_NORMAL | VOL_LOW

datatype Recommendation = STRONG_BUY | BUY | HOLD | SELL | STRONG_SELL

record CandleData =
  c_open :: real
  c_high :: real
  c_low :: real
  c_close :: real
  c_volume :: real
  c_timestamp :: "real option"

section \<open>Candlestick patterns (technicalAnalysis)\<close>

record TechnicalSignal =
  sig_pattern :: string
  sig_signal :: Direction
  sig_strength :: Strength

definition isBullishEngulfing :: "CandleData \<Rightarrow> CandleData \<Rightarrow> bool" where
  "isBullishEngulfing prev cur \<longleftrightarrow>
     c_close prev < c_open prev \<and> c_close cur > c_open cur \<and>
     c_open cur < c_close prev \<and> c_close cur > c_open prev"

definition isBearishEngulfing :: "CandleData \<Rightarrow> CandleData \<Rightarrow> bool" where
  "isBearishEngulfing prev cur \<longleftrightarrow>
     c_close prev > c_open prev \<and> c_close cur < c_open cur \<and>
     c_open cur > c_close prev \<and> c_close cur < c_open prev"

definition isMorningStar :: "CandleData \<Rightarrow> CandleData \<Rightarrow> CandleData \<Rightarrow> bool" where
  "isMorningStar first second third =
     (let firstBearish = c_close first < c_open first;
          secondSmall = \<bar>c_close second - c_open second\<bar> < \<bar>c_close first - c_open first\<bar> * (3 / 10);
          thirdBullish = (c_close third > c_open third \<and>
                          c_close third > (c_open first + c_close first) / 2)
      in firstBearish \<and> secondSmall \<and> thirdBullish)"

definition isEveningstar :: "CandleData \<Rightarrow> CandleData \<Rightarrow> CandleData \<Rightarrow> bool" where
  "isEveningstar first second third =
     (let firstBullish = c_close first > c_open first;
          secondSmall = \<bar>c_close second - c_open second\<bar> < \<bar>c_close first - c_open first\<bar> * (3 / 10);
          thirdBearish = (c_close third < c_open third \<and>
                          c_close third < (c_open first + c_close first) / 2)
      in firstBullish \<and> secondSmall \<and> thirdBearish)"

definition isHammer :: "CandleData \<Rightarrow> bool" where
  "isHammer candle =
     (let body = \<bar>c_close candle - c_open candle\<bar>;
          lowerShadow = min (c_open candle) (c_close candle) - c_low candle;
          upperShadow = c_high candle - max (c_open candle) (c_close candle)
      in lowerShadow > body * 2 \<and> upperShadow < body * (1 / 2))"

definition isShootingStar :: "CandleData \<Rightarrow> bool" where
  "isShootingStar candle =
     (let body = \<bar>c_close candle - c_open candle\<bar>;
          upperShadow = c_high candle - max (c_open candle) (c_close candle);
          lowerShadow = min (c_open candle) (c_close candle) - c_low candle
      in upperShadow > body * 2 \<and> lowerShadow < body * (1 / 2))"

definition isDoji :: "CandleData \<Rightarrow> bool" where
  "isDoji candle =
     (let body = \<bar>c_close candle - c_open candle\<bar>;
          rng = c_high candle - c_low candle
      in body < rng * (1 / 10))"

definition isPiercingPattern :: "CandleData \<Rightarrow> CandleData \<Rightarrow> bool" where
  "isPiercingPattern prev cur \<longleftrightarrow>
     c_close prev < c_open prev \<and> c_close cur > c_open cur \<and>
     c_close cur > (c_open prev + c_close prev) / 2 \<and> c_close cur < c_open prev"

definition isDarkCloudCover :: "CandleData \<Rightarrow> CandleData \<Rightarrow> bool" where
  "isDarkCloudCover prev cur \<longleftrightarrow>
     c_close prev > c_open prev \<and> c_close cur < c_open cur \<and>
     c_close cur < (c_open prev + c_close prev) / 2 \<and> c_close cur > c_open prev"

definition push_if :: "bool \<Rightarrow> 'a \<Rightarrow> 'a list" where
  \<comment> \<open>\<^verbatim>\<open>if (b) signals.push(x)\<close>, as the segment it appends.\<close>
  "push_if b x = (if b then [x] else [])"

definition detectCandlestickPatterns :: "CandleData list \<Rightarrow> TechnicalSignal list" where
  "detectCandlestickPatterns candles =
     (if length candles < 3 then []
      else
        let current = candles ! (length candles - 1);
            previous = candles ! (length candles - 2);
            twoDaysAgo = candles ! (length candles - 3)
        in push_if (isBullishEngulfing previous current)
             \<lparr>sig_pattern = ''Bullish Engulfing'', sig_signal = BULLISH, sig_strength = STRONG\<rparr>
         @ push_if (isMorningStar twoDaysAgo previous current)
             \<lparr>sig_pattern = ''Morning Star'', sig_signal = BULLISH, sig_strength = STRONG\<rparr>
         @ push_if (isHammer current)
             \<lparr>sig_pattern = ''Hammer'', sig_signal = BULLISH, sig_strength = MODERATE\<rparr>
         @ push_if (isPiercingPattern previous current)
             \<lparr>sig_pattern = ''Piercing Pattern'', sig_signal = BULLISH, sig_strength = MODERATE\<rparr>
         @ push_if (isBearishEngulfing previous current)
             \<lparr>sig_pattern = ''Bearish Engulfing'', sig_signal = BEARISH, sig_strength = STRONG\<rparr>
         @ push_if (isEveningstar twoDaysAgo previous current)
             \<lparr>sig_pattern = ''Evening Star'', sig_signal = BEARISH, sig_strength = STRONG\<rparr>
         @ push_if (isShootingStar current)
             \<lparr>sig_pattern = ''Shooting Star'', sig_signal = BEARISH, sig_strength = MODERATE\<rparr>
         @ push_if (isDarkCloudCover previous current)
             \<lparr>sig_pattern = ''Dark Cloud Cover'', sig_signal = BEARISH, sig_strength = MODERATE\<rparr>
         @ push_if (isDoji current)
             \<lparr>sig_pattern = ''Doji'', sig_signal = NEUTRAL, sig_strength = WEAK\<rparr>)"

section \<open>Operator game detection (operatorAnalysis)\<close>

datatype OperatorType =
  ACCUMULATION | DISTRIBUTION | BULL_TRAP | BEAR_TRAP | PUMP_DUMP | BREAKOUT_FAKE | SQUEEZE

datatype Level = HIGH | MEDIUM | LOW

datatype Action = ACT_BUY | ACT_SELL | AVOID | WAIT

record OperatorSignal =
  og_type :: OperatorType
  og_confidence :: Level
  og_action :: Action

definition count_where :: "('a \<Rightarrow> bool) \<Rightarrow> 'a list \<Rightarrow> nat" where
  \<comment> \<open>A counter incremented in a \<^verbatim>\<open>forEach\<close> for each element that passes a test.\<close>
  "count_where P xs = length (filter P xs)"

definition detectAccumulation :: "CandleData list \<Rightarrow> OperatorSignal option" where
  "detectAccumulation candles =
     (let recent = slice_last 10 candles;
          avgVolume = reduce_sum c_volume recent / real (length recent);
          lowVolumeGreenCandles =
            count_where (\<lambda>candle. c_close candle > c_open candle \<and>
                                   c_volume candle < avgVolume * (8 / 10)) recent;
          priceRange = reduce_sum (\<lambda>candle. \<bar>c_high candle - c_low candle\<bar>) recent;
          lastThreeVolumes = map c_volume (slice_last 3 recent);
          volumeIncreasing = (lastThreeVolumes ! 2 > lastThreeVolumes ! 0 * (12 / 10));
          avgPriceRange = priceRange / real (length recent);
          currentRange = \<bar>c_high (recent ! (length recent - 1)) - c_low (recent ! (length recent - 1))\<bar>;
          tightRange = (currentRange < avgPriceRange * (8 / 10))
      in if lowVolumeGreenCandles \<ge> 5 \<and> tightRange \<and> volumeIncreasing
         then Some \<lparr>og_type = ACCUMULATION, og_confidence = HIGH, og_action = ACT_BUY\<rparr>
         else None)"

definition detectDistribution :: "CandleData list \<Rightarrow> OperatorSignal option" where
  "detectDistribution candles =
     (let recent = slice_last 10 candles;
          avgVolume = reduce_sum c_volume recent / real (length recent);
          highVolumeRedCandles =
            count_where (\<lambda>candle. c_close candle < c_open candle \<and>
                                   c_volume candle > avgVolume * (13 / 10)) recent;
          upperShadows =
            count_where (\<lambda>candle.
                c_high candle - max (c_open candle) (c_close candle)
                  > \<bar>c_close candle - c_open candle\<bar> * (15 / 10)) recent;
          highs = map c_high (slice_last 5 recent);
          priceStalling = (highs ! 4 < highs ! 2 \<and> highs ! 3 < highs ! 1)
      in if highVolumeRedCandles \<ge> 3 \<and> upperShadows \<ge> 3 \<and> priceStalling
         then Some \<lparr>og_type = DISTRIBUTION, og_confidence = HIGH, og_action = ACT_SELL\<rparr>
         else None)"

definition bull_trap_step :: "real \<Rightarrow> bool \<times> bool \<Rightarrow> nat \<times> CandleData \<Rightarrow> bool \<times> bool" where
  \<comment> \<open>One round of the \<^verbatim>\<open>forEach\<close> over \<^verbatim>\<open>last5\<close>; the state is
      \<^verbatim>\<open>(brokeResistance, fellBack)\<close>.\<close>
  "bull_trap_step resistance st ic =
     (let brokeResistance = (fst st \<or> c_high (snd ic) > resistance * (101 / 100));
          fellBack = (snd st \<or> (brokeResistance \<and> fst ic > 1 \<and>
                                  c_close (snd ic) < resistance * (99 / 100)))
      in (brokeResistance, fellBack))"

definition detectBullTrap :: "CandleData list \<Rightarrow> OperatorSignal option" where
  "detectBullTrap candles =
     (if length candles < 15 then None
      else
        let recent = slice_last 15 candles;
            last5 = slice_last 5 recent;
            previous10 = slice 0 10 recent;
            resistance = max_list (map c_high previous10);
            st = foldl (bull_trap_step resistance) (False, False) (enumerate 0 last5);
            brokeResistance = fst st;
            fellBack = snd st;
            lastCandle = last5 ! (length last5 - 1);
            highVolume = (c_volume lastCandle
                            > (reduce_sum c_volume recent / real (length recent)) * (15 / 10))
        in if brokeResistance \<and> fellBack \<and> highVolume
           then Some \<lparr>og_type = BULL_TRAP, og_confidence = HIGH, og_action = AVOID\<rparr>
           else None)"

definition bear_trap_step :: "real \<Rightarrow> bool \<times> bool \<Rightarrow> nat \<times> CandleData \<Rightarrow> bool \<times> bool" where
  \<comment> \<open>The state is \<^verbatim>\<open>(brokeSupport, recovered)\<close>.\<close>
  "bear_trap_step support st ic =
     (let brokeSupport = (fst st \<or> c_low (snd ic) < support * (99 / 100));
          recovered = (snd st \<or> (brokeSupport \<and> fst ic > 1 \<and>
                                   c_close (snd ic) > support * (101 / 100)))
      in (brokeSupport, recovered))"

definition detectBearTrap :: "CandleData list \<Rightarrow> OperatorSignal option" where
  "detectBearTrap candles =
     (if length candles < 15 then None
      else
        let recent = slice_last 15 candles;
            last5 = slice_last 5 recent;
            previous10 = slice 0 10 recent;
            support = min_list (map c_low previous10);
            st = foldl (bear_trap_step support) (False, False) (enumerate 0 last5);
            brokeSupport = fst st;
            recovered = snd st;
            lastCandle = last5 ! (length last5 - 1);
            highVolume = (c_volume lastCandle
                            > (reduce_sum c_volume recent / real (length recent)) * (15 / 10))
        in if brokeSupport \<and> recovered \<and> highVolume
           then Some \<lparr>og_type = BEAR_TRAP, og_confidence = HIGH, og_action = ACT_BUY\<rparr>
           else None)"

definition max_gain_step :: "CandleData list \<Rightarrow> real \<times> nat \<Rightarrow> nat \<Rightarrow> real \<times> nat" where
  \<comment> \<open>One round of the \<^verbatim>\<open>forEach\<close> over \<^verbatim>\<open>recent\<close>; the state is
      \<^verbatim>\<open>(maxGain, maxGainIdx)\<close>.\<close>
  "max_gain_step recent st idx =
     (if idx > 0 then
        (let gain = ((c_high (recent ! idx) - c_close (recent ! (idx - 1)))
                       / c_close (recent ! (idx - 1))) * 100
         in if gain > fst st then (gain, idx) else st)
      else st)"

definition detectPumpAndDump :: "CandleData list \<Rightarrow> OperatorSignal option" where
  "detectPumpAndDump candles =
     (let recent = slice_last 10 candles;
          st = foldl (max_gain_step recent) (0, 0) [0 ..< length recent];
          maxGain = fst st;
          maxGainIdx = snd st;
          crashed =
            (if int maxGainIdx < int (length recent) - 2 then
               (let afterSpike = drop (maxGainIdx + 1) recent;
                    avgDrop =
                      foldl (\<lambda>sum idx.
                               if idx > 0 then
                                 sum + ((c_close (afterSpike ! (idx - 1)) - c_close (afterSpike ! idx))
                                          / c_close (afterSpike ! (idx - 1))) * 100
                               else sum)
                        0 [0 ..< length afterSpike]
                      / (real (length afterSpike) - 1)
                in avgDrop > 2)
             else False)
      in if maxGain > 5 \<and> crashed
         then Some \<lparr>og_type = PUMP_DUMP, og_confidence = HIGH, og_action = AVOID\<rparr>
         else None)"

definition detectFakeBreakout :: "CandleData list \<Rightarrow> OperatorSignal option" where
  "detectFakeBreakout candles =
     (if length candles < 20 then None
      else
        let recent = slice_last 20 candles;
            last3 = slice_last 3 recent;
            previous = take (length recent - 3) recent;
            avgVolume = reduce_sum c_volume previous / real (length previous);
            recentVolume = reduce_sum c_volume last3 / real (length last3);
            lowVolumeBreakout = (recentVolume < avgVolume * (7 / 10));
            resistance = max_list (map c_high previous);
            brokeResistance = list_ex (\<lambda>c. c_high c > resistance * (102 / 100)) last3
        in if brokeResistance \<and> lowVolumeBreakout
           then Some \<lparr>og_type = BREAKOUT_FAKE, og_confidence = MEDIUM, og_action = WAIT\<rparr>
           else None)"

definition detectShortSqueeze :: "CandleData list \<Rightarrow> OperatorSignal option" where
  "detectShortSqueeze candles =
     (let recent = slice_last 10 candles;
          avgVolume = reduce_sum c_volume recent / real (length recent);
          first5 = slice 0 5 recent;
          fallPercent = ((c_close (first5 ! 0) - c_close (first5 ! 4)) / c_close (first5 ! 0)) * 100;
          sharpFall = (fallPercent > 5);
          last3 = slice_last 3 recent;
          risePercent = ((c_close (last3 ! 2) - c_open (last3 ! 0)) / c_open (last3 ! 0)) * 100;
          sharpRise = (risePercent > 4);
          volumeSpike = list_ex (\<lambda>c. c_volume c > avgVolume * 2) last3
      in if sharpFall \<and> sharpRise \<and> volumeSpike
         then Some \<lparr>og_type = SQUEEZE, og_confidence = HIGH, og_action = ACT_BUY\<rparr>
         else None)"

text \<open>
  \<^verbatim>\<open>detectOperatorGame\<close> calls the detectors one after the other and returns at the
  first non-null result. The detectors index into the last ten bars, so they are
  only called on ten bars or more.
\<close>

definition detectOperatorGame :: "CandleData list \<Rightarrow> OperatorSignal option" where
  "detectOperatorGame candles =
     (if length candles < 10 then None
      else case detectAccumulation candles of Some accumulation \<Rightarrow> Some accumulation
      | None \<Rightarrow>
     (case detectDistribution candles of Some distribution \<Rightarrow> Some distribution
      | None \<Rightarrow>
     (case detectBullTrap candles of Some bullTrap \<Rightarrow> Some bullTrap
      | None \<Rightarrow>
     (case detectBearTrap candles of Some bearTrap \<Rightarrow> Some bearTrap
      | None \<Rightarrow>
     (case detectPumpAndDump candles of Some pumpDump \<Rightarrow> Some pumpDump
      | None \<Rightarrow>
     (case detectFakeBreakout candles of Some fakeBreakout \<Rightarrow> Some fakeBreakout
      | None \<Rightarrow>
     (case detectShortSqueeze candles of Some squeeze \<Rightarrow> Some squeeze
      | None \<Rightarrow> None)))))))"

text \<open>
  The priority order as data: each detector with the verdict type it reports, in the
  order in which \<^verbatim>\<open>detectOperatorGame\<close> calls them, and the first verdict of such
  a list.
\<close>

definition detectors :: "(OperatorType \<times> (CandleData list \<Rightarrow> OperatorSignal option)) list" where
  "detectors =
     [(ACCUMULATION, detectAccumulation), (DISTRIBUTION, detectDistribution),
      (BULL_TRAP, detectBullTrap), (BEAR_TRAP, detectBearTrap),
      (PUMP_DUMP, detectPumpAndDump), (BREAKOUT_FAKE, detectFakeBreakout),
      (SQUEEZE, detectShortSqueeze)]"

definition first_fired ::
  "(OperatorType \<times> (CandleData list \<Rightarrow> OperatorSignal option)) list \<Rightarrow> CandleData list \<Rightarrow>
   OperatorSignal option" where
  \<comment> \<open>The verdict of the first detector of the list that returns one.\<close>
  "first_fired ds candles =
     (case find (\<lambda>td. snd td candles \<noteq> None) ds of
        None \<Rightarrow> None
      | Some td \<Rightarrow> snd td candles)"

definition reports_own_type ::
  "CandleData list \<Rightarrow> OperatorType \<times> (CandleData list \<Rightarrow> OperatorSignal option) \<Rightarrow> bool" where
  \<comment> \<open>A detector either returns nothing or a verdict of the type listed with it.\<close>
  "reports_own_type candles td \<longleftrightarrow>
     snd td candles = None \<or> map_option og_type (snd td candles) = Some (fst td)"

section \<open>Smart-money structure analysis (smartMoneyAnalysis)\<close>

datatype Side = SIDE_BULLISH | SIDE_BEARISH

datatype MarketStructure = MS_BULLISH | MS_BEARISH | RANGING

datatype BosType = BULLISH_BOS | BEARISH_BOS

datatype ChochType = BULLISH_CHOCH | BEARISH_CHOCH

datatype ZoneType = SUPPLY | DEMAND

record LiquiditySweep =
  ls_type :: Side
  ls_price :: real
  ls_timestamp :: real
  ls_confidence :: Level

record OrderBlock =
  ob_type :: Side
  ob_high :: real
  ob_low :: real
  ob_timestamp :: real
  ob_strength :: Strength

record FairValueGap =
  fvg_type :: Side
  fvg_top :: real
  fvg_bottom :: real
  fvg_timestamp :: real
  fvg_filled :: bool

record BreakOfStructure =
  bos_type :: BosType
  bos_price :: real
  bos_timestamp :: real
  bos_previousStructure :: real

record ChangeOfCharacter =
  choch_type :: ChochType
  choch_price :: real
  choch_timestamp :: real
  choch_significance :: Level

record InstitutionalCandle =
  ic_index :: nat
  ic_type :: Side
  ic_volume :: real
  ic_bodySize :: real

record SupplyDemandZone =
  sdz_type :: ZoneType
  sdz_top :: real
  sdz_bottom :: real
  sdz_strength :: real
  sdz_touches :: nat

record SMCAnalysis =
  smc_liquiditySweeps :: "LiquiditySweep list"
  smc_orderBlocks :: "OrderBlock list"
  smc_fairValueGaps :: "FairValueGap list"
  smc_marketStructure :: MarketStructure
  smc_bos :: "BreakOfStructure option"
  smc_choch :: "ChangeOfCharacter option"
  smc_institutionalCandles :: "InstitutionalCandle list"
  smc_supplyDemandZones :: "SupplyDemandZone list"
  smc_overallConfidence :: real
  smc_recommendation :: Recommendation

definition timestamp_or :: "CandleData \<Rightarrow> nat \<Rightarrow> real" where
  \<comment> \<open>\<^verbatim>\<open>candle.timestamp || i\<close>: the index when the timestamp is missing or zero.\<close>
  "timestamp_or candle i =
     (case c_timestamp candle of
        None \<Rightarrow> real i
      | Some t \<Rightarrow> if t = 0 then real i else t)"

definition sweeps_at :: "CandleData list \<Rightarrow> nat \<Rightarrow> LiquiditySweep list" where
  \<comment> \<open>The body of the loop of \<^verbatim>\<open>detectLiquiditySweeps\<close> at index \<open>i\<close>, lookback 20.\<close>
  "sweeps_at candles i =
     (let current = candles ! i;
          next = candles ! (i + 1);
          previous = slice (i - 20) i candles;
          swingHigh = max_list (map c_high previous);
          swingLow = min_list (map c_low previous)
      in push_if (c_low current < swingLow \<and> c_close next > c_open current \<and> c_close next > swingLow)
           \<lparr>ls_type = SIDE_BULLISH, ls_price = c_low current,
            ls_timestamp = timestamp_or current i,
            ls_confidence = (if c_close next > c_open current * (101 / 100) then HIGH else MEDIUM)\<rparr>
       @ push_if (c_high current > swingHigh \<and> c_close next < c_open current \<and> c_close next < swingHigh)
           \<lparr>ls_type = SIDE_BEARISH, ls_price = c_high current,
            ls_timestamp = timestamp_or current i,
            ls_confidence = (if c_close next < c_open current * (99 / 100) then HIGH else MEDIUM)\<rparr>)"

definition detectLiquiditySweeps :: "CandleData list \<Rightarrow> LiquiditySweep list" where
  "detectLiquiditySweeps candles =
     slice_last 5 (concat (map (sweeps_at candles) [20 ..< length candles - 1]))"

definition order_blocks_at :: "CandleData list \<Rightarrow> nat \<Rightarrow> OrderBlock list" where
  \<comment> \<open>The body of the loop of \<^verbatim>\<open>detectOrderBlocks\<close> at index \<open>i\<close>.\<close>
  "order_blocks_at candles i =
     (let current = candles ! i;
          next = candles ! (i + 1);
          nextTwo = candles ! (i + 2);
          nextThree = candles ! (i + 3);
          isBearish = (c_close current < c_open current);
          strongBullishMove = (c_close next > c_open next \<and> c_close nextTwo > c_open nextTwo \<and>
                               c_close nextThree > c_high current);
          isBullish = (c_close current > c_open current);
          strongBearishMove = (c_close next < c_open next \<and> c_close nextTwo < c_open nextTwo \<and>
                               c_close nextThree < c_low current)
      in push_if (isBearish \<and> strongBullishMove)
           \<lparr>ob_type = SIDE_BULLISH, ob_high = c_high current, ob_low = c_low current,
            ob_timestamp = timestamp_or current i,
            ob_strength =
              (if c_close nextThree > c_high current * (103 / 100) then STRONG
               else if c_close nextThree > c_high current * (1015 / 1000) then MODERATE
               else WEAK)\<rparr>
       @ push_if (isBullish \<and> strongBearishMove)
           \<lparr>ob_type = SIDE_BEARISH, ob_high = c_high current, ob_low = c_low current,
            ob_timestamp = timestamp_or current i,
            ob_strength =
              (if c_close nextThree < c_low current * (97 / 100) then STRONG
               else if c_close nextThree < c_low current * (985 / 1000) then MODERATE
               else WEAK)\<rparr>)"

definition detectOrderBlocks :: "CandleData list \<Rightarrow> OrderBlock list" where
  "detectOrderBlocks candles =
     slice_last 3 (concat (map (order_blocks_at candles) [1 ..< length candles - 3]))"

definition fair_value_gaps_at :: "CandleData list \<Rightarrow> nat \<Rightarrow> FairValueGap list" where
  \<comment> \<open>The body of the loop of \<^verbatim>\<open>detectFairValueGaps\<close> at index \<open>i\<close>.\<close>
  "fair_value_gaps_at candles i =
     (let prev = candles ! (i - 1);
          current = candles ! i;
          next = candles ! (i + 1)
      in push_if (c_low next > c_high prev \<and> c_close current > c_open current \<and>
                  ((c_low next - c_high prev) / c_high prev) * 100 > 3 / 10)
           \<lparr>fvg_type = SIDE_BULLISH, fvg_top = c_low next, fvg_bottom = c_high prev,
            fvg_timestamp = timestamp_or current i, fvg_filled = False\<rparr>
       @ push_if (c_high next < c_low prev \<and> c_close current < c_open current \<and>
                  ((c_low prev - c_high next) / c_low prev) * 100 > 3 / 10)
           \<lparr>fvg_type = SIDE_BEARISH, fvg_top = c_low prev, fvg_bottom = c_high next,
            fvg_timestamp = timestamp_or current i, fvg_filled = False\<rparr>)"

definition detectFairValueGaps :: "CandleData list \<Rightarrow> FairValueGap list" where
  "detectFairValueGaps candles =
     slice_last 5 (concat (map (fair_value_gaps_at candles) [1 ..< length candles - 1]))"

definition determineMarketStructure :: "CandleData list \<Rightarrow> MarketStructure" where
  "determineMarketStructure candles =
     (let recent = slice_last 20 candles;
          highs = map c_high recent;
          lows = map c_low recent;
          idxs = [2 ..< length recent];
          higherHighs = count_where (\<lambda>i. highs ! i > highs ! (i - 2)) idxs;
          higherLows = count_where (\<lambda>i. lows ! i > lows ! (i - 2)) idxs;
          lowerHighs = count_where (\<lambda>i. highs ! i < highs ! (i - 2)) idxs;
          lowerLows = count_where (\<lambda>i. lows ! i < lows ! (i - 2)) idxs
      in if higherHighs \<ge> 8 \<and> higherLows \<ge> 8 then MS_BULLISH
         else if lowerHighs \<ge> 8 \<and> lowerLows \<ge> 8 then MS_BEARISH
         else RANGING)"

definition detectBreakOfStructure :: "CandleData list \<Rightarrow> BreakOfStructure option" where
  \<comment> \<open>Called on 50 bars or more, so \<^verbatim>\<open>recent.slice(0, -5)\<close> has 25 bars.\<close>
  "detectBreakOfStructure candles =
     (let recent = slice_last 30 candles;
          current = candles ! (length candles - 1);
          swingHigh = max_list (map c_high (take (length recent - 5) recent));
          swingLow = min_list (map c_low (take (length recent - 5) recent))
      in if c_close current > swingHigh then
           Some \<lparr>bos_type = BULLISH_BOS, bos_price = c_close current,
                 bos_timestamp = timestamp_or current (length candles - 1),
                 bos_previousStructure = swingHigh\<rparr>
         else if c_close current < swingLow then
           Some \<lparr>bos_type = BEARISH_BOS, bos_price = c_close current,
                 bos_timestamp = timestamp_or current (length candles - 1),
                 bos_previousStructure = swingLow\<rparr>
         else None)"

definition detectChangeOfCharacter :: "CandleData list \<Rightarrow> ChangeOfCharacter option" where
  \<comment> \<open>\<^verbatim>\<open>candles.slice(-40, -20)\<close> is the slice from \<open>length - 40\<close> to \<open>length - 20\<close>.\<close>
  "detectChangeOfCharacter candles =
     (let recent = slice_last 20 candles;
          structure = determineMarketStructure
                        (slice (length candles - 40) (length candles - 20) candles);
          currentStructure = determineMarketStructure recent;
          lastRecent = recent ! (length recent - 1)
      in if structure = MS_BULLISH \<and> currentStructure = MS_BEARISH then
           Some \<lparr>choch_type = BEARISH_CHOCH, choch_price = c_close lastRecent,
                 choch_timestamp = timestamp_or lastRecent (length candles - 1),
                 choch_significance = HIGH\<rparr>
         else if structure = MS_BEARISH \<and> currentStructure = MS_BULLISH then
           Some \<lparr>choch_type = BULLISH_CHOCH, choch_price = c_close lastRecent,
                 choch_timestamp = timestamp_or lastRecent (length candles - 1),
                 choch_significance = HIGH\<rparr>
         else None)"

definition institutional_at :: "real \<Rightarrow> nat \<times> CandleData \<Rightarrow> InstitutionalCandle list" where
  "institutional_at avgVolume ic =
     (let index = fst ic;
          candle = snd ic;
          body = \<bar>c_close candle - c_open candle\<bar>;
          rng = c_high candle - c_low candle;
          bodyRatio = body / rng
      in push_if (c_volume candle > avgVolume * 2 \<and> bodyRatio > 7 / 10)
           \<lparr>ic_index = index,
            ic_type = (if c_close candle > c_open candle then SIDE_BULLISH else SIDE_BEARISH),
            ic_volume = c_volume candle, ic_bodySize = body\<rparr>)"

definition detectInstitutionalCandles :: "CandleData list \<Rightarrow> InstitutionalCandle list" where
  "detectInstitutionalCandles candles =
     (let avgVolume = reduce_sum c_volume candles / real (length candles)
      in slice_last 5 (concat (map (institutional_at avgVolume) (enumerate 0 candles))))"

definition zones_at :: "CandleData list \<Rightarrow> nat \<Rightarrow> SupplyDemandZone list" where
  \<comment> \<open>The body of the loop of \<^verbatim>\<open>identifySupplyDemandZones\<close> at index \<open>i\<close>.\<close>
  "zones_at candles i =
     (let zone = slice (i - 5) (i + 1) candles;
          after = slice (i + 1) (i + 11) candles;
          zoneHigh = max_list (map c_high zone);
          zoneLow = min_list (map c_low zone);
          rally = count_where (\<lambda>c. c_close c > zoneHigh * (102 / 100)) after;
          demandTouches = count_where (\<lambda>c. c_low c \<le> zoneHigh \<and> c_low c \<ge> zoneLow)
                            (drop (i + 11) candles);
          drop_count = count_where (\<lambda>c. c_close c < zoneLow * (98 / 100)) after;
          supplyTouches = count_where (\<lambda>c. c_high c \<ge> zoneLow \<and> c_high c \<le> zoneHigh)
                            (drop (i + 11) candles)
      in push_if (rally \<ge> 5)
           \<lparr>sdz_type = DEMAND, sdz_top = zoneHigh, sdz_bottom = zoneLow,
            sdz_strength = min 100 (real rally * 10 + real demandTouches * 5),
            sdz_touches = demandTouches\<rparr>
       @ push_if (drop_count \<ge> 5)
           \<lparr>sdz_type = SUPPLY, sdz_top = zoneHigh, sdz_bottom = zoneLow,
            sdz_strength = min 100 (real drop_count * 10 + real supplyTouches * 5),
            sdz_touches = supplyTouches\<rparr>)"

definition identifySupplyDemandZones :: "CandleData list \<Rightarrow> SupplyDemandZone list" where
  "identifySupplyDemandZones candles =
     slice_last 3 (concat (map (zones_at candles) [50 ..< length candles - 10]))"

subsection \<open>The structure score\<close>

text \<open>
  \<^verbatim>\<open>calculateSMCScore\<close> accumulates two local sums, \<^verbatim>\<open>bullishScore\<close> and
  \<^verbatim>\<open>bearishScore\<close>, and derives the confidence and the recommendation from them.
  The two sums are functions of their own here, so that properties can name them.
\<close>

definition bullishScore ::
  "LiquiditySweep list \<Rightarrow> OrderBlock list \<Rightarrow> FairValueGap list \<Rightarrow> MarketStructure \<Rightarrow>
   BreakOfStructure option \<Rightarrow> ChangeOfCharacter option \<Rightarrow> InstitutionalCandle list \<Rightarrow> real" where
  "bullishScore liquiditySweeps orderBlocks fairValueGaps marketStructure bos choch institutionalCandles =
     (let recentBullishSweeps = count_where (\<lambda>s. ls_type s = SIDE_BULLISH) liquiditySweeps;
          bullishOB = count_where (\<lambda>ob. ob_type ob = SIDE_BULLISH \<and> ob_strength ob = STRONG) orderBlocks;
          bullishFVG = count_where (\<lambda>fvg. fvg_type fvg = SIDE_BULLISH) fairValueGaps;
          recentBullishInst = count_where (\<lambda>ic. ic_type ic = SIDE_BULLISH) institutionalCandles
      in 0 + real recentBullishSweeps * 15
           + real bullishOB * 20
           + real bullishFVG * 10
           + (if marketStructure = MS_BULLISH then 25 else 0)
           + (if map_option bos_type bos = Some BULLISH_BOS then 20 else 0)
           + (if map_option choch_type choch = Some BULLISH_CHOCH then 25 else 0)
           + real recentBullishInst * 10)"

definition bearishScore ::
  "LiquiditySweep list \<Rightarrow> OrderBlock list \<Rightarrow> FairValueGap list \<Rightarrow> MarketStructure \<Rightarrow>
   BreakOfStructure option \<Rightarrow> ChangeOfCharacter option \<Rightarrow> InstitutionalCandle list \<Rightarrow> real" where
  "bearishScore liquiditySweeps orderBlocks fairValueGaps marketStructure bos choch institutionalCandles =
     (let recentBearishSweeps = count_where (\<lambda>s. ls_type s = SIDE_BEARISH) liquiditySweeps;
          bearishOB = count_where (\<lambda>ob. ob_type ob = SIDE_BEARISH \<and> ob_strength ob = STRONG) orderBlocks;
          bearishFVG = count_where (\<lambda>fvg. fvg_type fvg = SIDE_BEARISH) fairValueGaps;
          recentBearishInst = count_where (\<lambda>ic. ic_type ic = SIDE_BEARISH) institutionalCandles
      in 0 + real recentBearishSweeps * 15
           + real bearishOB * 20
           + real bearishFVG * 10
           + (if marketStructure = MS_BULLISH then 0
              else if marketStructure = MS_BEARISH then 25 else 0)
           + (if map_option bos_type bos = Some BULLISH_BOS then 0
              else if map_option bos_type bos = Some BEARISH_BOS then 20 else 0)
           + (if map_option choch_type choch = Some BULLISH_CHOCH then 0
              else if map_option choch_type choch = Some BEARISH_CHOCH then 25 else 0)
           + real recentBearishInst * 10)"

definition or_one :: "real \<Rightarrow> real" where
  \<comment> \<open>\<^verbatim>\<open>x || 1\<close> on a number: 1 when \<open>x\<close> is zero.\<close>
  "or_one x = (if x = 0 then 1 else x)"

definition smc_confidence :: "real \<Rightarrow> real \<Rightarrow> real" where
  \<comment> \<open>The \<^verbatim>\<open>confidence\<close> of \<^verbatim>\<open>calculateSMCScore\<close> from its two sums. The sums
      are small multiples of 5, exact as doubles; the quotient and the product are
      each rounded to a double before \<^verbatim>\<open>Math.round\<close> reads the result.\<close>
  "smc_confidence bullish bearish =
     (let totalScore = bullish + bearish
      in min 100 (js_round (to_double (to_double (max bullish bearish / or_one totalScore) * 100))))"

definition smc_recommendation_of :: "real \<Rightarrow> real \<Rightarrow> Recommendation" where
  \<comment> \<open>The \<^verbatim>\<open>recommendation\<close> of \<^verbatim>\<open>calculateSMCScore\<close> from its two sums.\<close>
  "smc_recommendation_of bullish bearish =
     (if bullish > bearish * (15 / 10) then STRONG_BUY
      else if bullish > bearish then BUY
      else if bearish > bullish * (15 / 10) then STRONG_SELL
      else if bearish > bullish then SELL
      else HOLD)"

definition calculateSMCScore ::
  "LiquiditySweep list \<Rightarrow> OrderBlock list \<Rightarrow> FairValueGap list \<Rightarrow> MarketStructure \<Rightarrow>
   BreakOfStructure option \<Rightarrow> ChangeOfCharacter option \<Rightarrow> InstitutionalCandle list \<Rightarrow>
   SupplyDemandZone list \<Rightarrow> real \<times> Recommendation" where
  \<comment> \<open>Returns \<^verbatim>\<open>(confidence, recommendation)\<close>; \<^verbatim>\<open>supplyDemandZones\<close> is not read.\<close>
  "calculateSMCScore liquiditySweeps orderBlocks fairValueGaps marketStructure bos choch
       institutionalCandles supplyDemandZones =
     (let bullish = bullishScore liquiditySweeps orderBlocks fairValueGaps marketStructure bos choch
                      institutionalCandles;
          bearish = bearishScore liquiditySweeps orderBlocks fairValueGaps marketStructure bos choch
                      institutionalCandles
      in (smc_confidence bullish bearish, smc_recommendation_of bullish bearish))"

definition getDefaultAnalysis :: SMCAnalysis where
  "getDefaultAnalysis =
     \<lparr>smc_liquiditySweeps = [], smc_orderBlocks = [], smc_fairValueGaps = [],
      smc_marketStructure = RANGING, smc_bos = None, smc_choch = None,
      smc_institutionalCandles = [], smc_supplyDemandZones = [],
      smc_overallConfidence = 0, smc_recommendation = HOLD\<rparr>"

definition analyzeSMC :: "CandleData list \<Rightarrow> SMCAnalysis" where
  "analyzeSMC candles =
     (if length candles < 50 then getDefaultAnalysis
      else
        let liquiditySweeps = detectLiquiditySweeps candles;
            orderBlocks = detectOrderBlocks candles;
            fairValueGaps = detectFairValueGaps candles;
            marketStructure = determineMarketStructure candles;
            bos = detectBreakOfStructure candles;
            choch = detectChangeOfCharacter candles;
            institutionalCandles = detectInstitutionalCandles candles;
            supplyDemandZones = identifySupplyDemandZones candles;
            score = calculateSMCScore liquiditySweeps orderBlocks fairValueGaps marketStructure
                      bos choch institutionalCandles supplyDemandZones
        in \<lparr>smc_liquiditySweeps = liquiditySweeps, smc_orderBlocks = orderBlocks,
            smc_fairValueGaps = fairValueGaps, smc_marketStructure = marketStructure,
            smc_bos = bos, smc_choch = choch,
            smc_institutionalCandles = institutionalCandles,
            smc_supplyDemandZones = supplyDemandZones,
            smc_overallConfidence = fst score, smc_recommendation = snd score\<rparr>)"

section \<open>Multi-timeframe analysis\<close>

datatype Timeframe = TF_1m | TF_5m | TF_15m | TF_1H | TF_4H | TF_1D

record TimeframeSignal =
  ts_timeframe :: Timeframe
  ts_trend :: Trend
  ts_score :: real
  ts_rsi :: real
  ts_macd :: Direction
  ts_ema :: Direction
  ts_priceAction :: Direction
  ts_volume :: VolumeState
  ts_confidence :: real

text \<open>
  \<^verbatim>\<open>MTFAnalysis.timeframes\<close> is an object with exactly the six keys
  \<^verbatim>\<open>'1m', '5m', '15m', '1H', '4H', '1D'\<close>, built in that order.
\<close>

record Timeframes =
  tf_1m :: TimeframeSignal
  tf_5m :: TimeframeSignal
  tf_15m :: TimeframeSignal
  tf_1H :: TimeframeSignal
  tf_4H :: TimeframeSignal
  tf_1D :: TimeframeSignal

definition TIMEFRAME_WEIGHTS :: "Timeframe \<Rightarrow> real" where
  "TIMEFRAME_WEIGHTS tf =
     (case tf of TF_1m \<Rightarrow> 3 / 100 | TF_5m \<Rightarrow> 7 / 100 | TF_15m \<Rightarrow> 15 / 100
               | TF_1H \<Rightarrow> 20 / 100 | TF_4H \<Rightarrow> 25 / 100 | TF_1D \<Rightarrow> 30 / 100)"

definition tf_entries :: "Timeframes \<Rightarrow> (Timeframe \<times> TimeframeSignal) list" where
  \<comment> \<open>\<^verbatim>\<open>Object.entries(timeframes)\<close>, in insertion order.\<close>
  "tf_entries t =
     [(TF_1m, tf_1m t), (TF_5m, tf_5m t), (TF_15m, tf_15m t),
      (TF_1H, tf_1H t), (TF_4H, tf_4H t), (TF_1D, tf_1D t)]"

definition tf_values :: "Timeframes \<Rightarrow> TimeframeSignal list" where
  \<comment> \<open>\<^verbatim>\<open>Object.values(timeframes)\<close>.\<close>
  "tf_values t = map snd (tf_entries t)"

definition trend_of_score :: "real \<Rightarrow> Trend" where
  "trend_of_score s =
     (if s > 60 then STRONG_BULLISH
      else if s > 20 then TREND_BULLISH
      else if s < - 60 then STRONG_BEARISH
      else if s < - 20 then TREND_BEARISH
      else TREND_NEUTRAL)"

definition calculateOverallTrend :: "Timeframes \<Rightarrow> Trend" where
  "calculateOverallTrend t =
     trend_of_score
       (fold (\<lambda>(tf, signal) weightedScore. weightedScore + ts_score signal * TIMEFRAME_WEIGHTS tf)
          (tf_entries t) 0)"

definition calculateConfidenceScore :: "Timeframes \<Rightarrow> real" where
  "calculateConfidenceScore t =
     js_round
       (fold (\<lambda>(tf, signal) weightedConfidence.
                weightedConfidence + ts_confidence signal * TIMEFRAME_WEIGHTS tf)
          (tf_entries t) 0)"

definition is_bullish_trend :: "Trend \<Rightarrow> bool" where
  "is_bullish_trend t \<longleftrightarrow> t = TREND_BULLISH \<or> t = STRONG_BULLISH"

definition is_bearish_trend :: "Trend \<Rightarrow> bool" where
  "is_bearish_trend t \<longleftrightarrow> t = TREND_BEARISH \<or> t = STRONG_BEARISH"

definition is_neutral_trend :: "Trend \<Rightarrow> bool" where
  "is_neutral_trend t \<longleftrightarrow> t = TREND_NEUTRAL"

definition alignment_of_trends :: "Trend list \<Rightarrow> real" where
  "alignment_of_trends trends =
     (let bullish = length (filter is_bullish_trend trends);
          bearish = length (filter is_bearish_trend trends);
          neutral = length (filter is_neutral_trend trends);
          maxAlignment = max (max bullish bearish) neutral
      in js_round ((real maxAlignment / real (length trends)) * 100))"

definition calculateAlignment :: "Timeframes \<Rightarrow> real" where
  "calculateAlignment t = alignment_of_trends (map ts_trend (tf_values t))"

subsection \<open>Resampling one-hour bars to four-hour bars\<close>

definition aggregate_chunk :: "CandleData list \<Rightarrow> CandleData" where
  \<comment> \<open>The object pushed for one non-empty chunk.\<close>
  "aggregate_chunk chunk =
     \<lparr>c_open = c_open (chunk ! 0),
      c_high = max_list (map c_high chunk),
      c_low = min_list (map c_low chunk),
      c_close = c_close (chunk ! (length chunk - 1)),
      c_volume = reduce_sum c_volume chunk,
      c_timestamp = c_timestamp (chunk ! 0)\<rparr>"

function aggregate_loop :: "CandleData list \<Rightarrow> nat \<Rightarrow> CandleData list \<Rightarrow> CandleData list" where
  "aggregate_loop candles i aggregated =
     (if i < length candles then
        (let chunk = slice i (i + 4) candles
         in if length chunk = 0 then aggregate_loop candles (i + 4) aggregated
            else aggregate_loop candles (i + 4) (aggregated @ [aggregate_chunk chunk]))
      else aggregated)"
  by pat_completeness auto
termination
  by (relation "measure (\<lambda>(candles, i, aggregated). length candles - i)") auto

declare aggregate_loop.simps [simp del]

definition aggregateTo4H :: "CandleData list \<Rightarrow> CandleData list" where
  "aggregateTo4H candles = aggregate_loop candles 0 []"

text \<open>
  The specification's \<^verbatim>\<open>resample(series, factor)\<close>, written from its words for the
  comparison with \<^const>\<open>aggregateTo4H\<close>: it fails with \<^verbatim>\<open>InsufficientData\<close> when
  the series is shorter than the factor, and otherwise groups \<open>factor\<close> consecutive
  bars into one. The specification does not say what becomes of a last, shorter group;
  it is aggregated here like the others.
\<close>

datatype error = InsufficientData

definition resample_spec :: "CandleData list \<Rightarrow> nat \<Rightarrow> error + CandleData list" where
  "resample_spec series factor =
     (if length series < factor then Inl InsufficientData
      else Inr (map (\<lambda>k. aggregate_chunk (slice (factor * k) (factor * k + factor) series))
                  [0 ..< (length series + factor - 1) div factor]))"

record KeyLevels =
  kl_support :: "real list"
  kl_resistance :: "real list"

record MTFAnalysis =
  mtf_currentPrice :: real
  mtf_timeframes :: Timeframes
  mtf_overallTrend :: Trend
  mtf_confidenceScore :: real
  mtf_alignment :: real
  mtf_recommendation :: Recommendation
  mtf_keyLevels :: KeyLevels

definition getDefaultTimeframeSignal :: "Timeframe \<Rightarrow> TimeframeSignal" where
  "getDefaultTimeframeSignal timeframe =
     \<lparr>ts_timeframe = timeframe, ts_trend = TREND_NEUTRAL, ts_score = 0, ts_rsi = 50,
      ts_macd = NEUTRAL, ts_ema = NEUTRAL, ts_priceAction = NEUTRAL, ts_volume = VOL_NORMAL,
      ts_confidence = 0\<rparr>"

definition getDefaultMTFAnalysis :: MTFAnalysis where
  "getDefaultMTFAnalysis =
     \<lparr>mtf_currentPrice = 0,
      mtf_timeframes =
        \<lparr>tf_1m = getDefaultTimeframeSignal TF_1m, tf_5m = getDefaultTimeframeSignal TF_5m,
         tf_15m = getDefaultTimeframeSignal TF_15m, tf_1H = getDefaultTimeframeSignal TF_1H,
         tf_4H = getDefaultTimeframeSignal TF_4H, tf_1D = getDefaultTimeframeSignal TF_1D\<rparr>,
      mtf_overallTrend = TREND_NEUTRAL, mtf_confidenceScore = 0, mtf_alignment = 0,
      mtf_recommendation = HOLD,
      mtf_keyLevels = \<lparr>kl_support = [], kl_resistance = []\<rparr>\<rparr>"

section \<open>The confidence engine (aiConfidenceEngine)\<close>

record OperatorStrength =
  os_score :: real
  os_sentiment :: Direction

datatype SignalStrength = VERY_STRONG | SS_STRONG | SS_MODERATE | SS_WEAK | VERY_WEAK

datatype TimeHorizon = SCALP | INTRADAY | SWING | POSITIONAL

datatype PositionSize = SMALL | PS_MEDIUM | LARGE

record ComponentScores =
  cs_technical :: real
  cs_smc :: real
  cs_mtf :: real
  cs_operator :: real
  cs_volume :: real
  cs_momentum :: real

record AIConfidence =
  tradeConfidenceScore :: real
  riskScore :: real
  probabilityBullish :: real
  probabilityBearish :: real
  signalStrength :: SignalStrength
  recommendation :: Recommendation
  timeHorizon :: TimeHorizon
  componentScores :: ComponentScores
  suggestedEntry :: real
  suggestedTarget :: real
  suggestedStopLoss :: real
  riskRewardRatio :: real
  positionSize :: PositionSize

record TradeSetup =
  su_suggestedEntry :: real
  su_suggestedTarget :: real
  su_suggestedStopLoss :: real
  su_riskRewardRatio :: real

definition COMPONENT_WEIGHTS :: ComponentScores where
  "COMPONENT_WEIGHTS =
     \<lparr>cs_technical = 15 / 100, cs_smc = 25 / 100, cs_mtf = 25 / 100,
      cs_operator = 20 / 100, cs_volume = 10 / 100, cs_momentum = 5 / 100\<rparr>"

definition clamp_0_100 :: "real \<Rightarrow> real" where
  \<comment> \<open>\<^verbatim>\<open>Math.max(0, Math.min(100, x))\<close>.\<close>
  "clamp_0_100 x = max 0 (min 100 x)"

definition pattern_step :: "real \<Rightarrow> real \<Rightarrow> real \<Rightarrow> TechnicalSignal \<Rightarrow> real" where
  \<comment> \<open>One round of a \<^verbatim>\<open>forEach\<close> over patterns: \<open>strong\<close> is added for a strong
      pattern and \<open>moderate\<close> for a moderate one.\<close>
  "pattern_step strong moderate score p =
     (if sig_strength p = STRONG then score + strong
      else if sig_strength p = MODERATE then score + moderate
      else score)"

definition calculateTechnicalScore :: "real \<Rightarrow> Direction \<Rightarrow> TechnicalSignal list \<Rightarrow> real" where
  "calculateTechnicalScore rsi macdSignal technicalSignals =
     (let score0 = 50;
          score1 = (if rsi > 70 then score0 - 15
                    else if rsi > 60 then score0 + 10
                    else if rsi > 50 then score0 + 15
                    else if rsi > 40 then score0 + 10
                    else if rsi > 30 then score0 - 10
                    else score0 + 15);
          score2 = (if macdSignal = BULLISH then score1 + 15
                    else if macdSignal = BEARISH then score1 - 15
                    else score1);
          bullishPatterns = filter (\<lambda>s. sig_signal s = BULLISH) technicalSignals;
          bearishPatterns = filter (\<lambda>s. sig_signal s = BEARISH) technicalSignals;
          score3 = foldl (pattern_step 10 5) score2 bullishPatterns;
          score4 = foldl (pattern_step (- 10) (- 5)) score3 bearishPatterns
      in clamp_0_100 score4)"

definition ai_calculateSMCScore :: "SMCAnalysis option \<Rightarrow> real" where
  \<comment> \<open>The engine's own \<^verbatim>\<open>calculateSMCScore\<close>, a function of the finished report.\<close>
  "ai_calculateSMCScore smcAnalysis =
     (case smcAnalysis of
        None \<Rightarrow> 50
      | Some smc \<Rightarrow>
          let score0 = 50;
              score1 = (if smc_marketStructure smc = MS_BULLISH then score0 + 20
                        else if smc_marketStructure smc = MS_BEARISH then score0 - 20
                        else score0);
              score2 = (if map_option bos_type (smc_bos smc) = Some BULLISH_BOS then score1 + 15
                        else if map_option bos_type (smc_bos smc) = Some BEARISH_BOS then score1 - 15
                        else score1);
              score3 = (if map_option choch_type (smc_choch smc) = Some BULLISH_CHOCH then score2 + 20
                        else if map_option choch_type (smc_choch smc) = Some BEARISH_CHOCH then score2 - 20
                        else score2);
              bullishSweeps = count_where (\<lambda>s. ls_type s = SIDE_BULLISH) (smc_liquiditySweeps smc);
              bearishSweeps = count_where (\<lambda>s. ls_type s = SIDE_BEARISH) (smc_liquiditySweeps smc);
              score4 = score3 + real bullishSweeps * 5;
              score5 = score4 - real bearishSweeps * 5;
              bullishOB = count_where (\<lambda>ob. ob_type ob = SIDE_BULLISH) (smc_orderBlocks smc);
              bearishOB = count_where (\<lambda>ob. ob_type ob = SIDE_BEARISH) (smc_orderBlocks smc);
              score6 = score5 + real bullishOB * 5;
              score7 = score6 - real bearishOB * 5
          in clamp_0_100 score7)"

definition calculateMTFScore :: "MTFAnalysis option \<Rightarrow> real" where
  "calculateMTFScore mtfAnalysis =
     (case mtfAnalysis of
        None \<Rightarrow> 50
      | Some mtf \<Rightarrow>
          let baseScore = mtf_confidenceScore mtf;
              alignmentBonus = (mtf_alignment mtf - 50) * (1 / 2);
              score0 = baseScore + alignmentBonus;
              score1 = (if mtf_overallTrend mtf = STRONG_BULLISH then min 100 (score0 + 10)
                        else if mtf_overallTrend mtf = STRONG_BEARISH then max 0 (score0 - 10)
                        else score0)
          in clamp_0_100 score1)"

definition calculateOperatorScore :: "OperatorSignal option \<Rightarrow> OperatorStrength option \<Rightarrow> real" where
  "calculateOperatorScore operatorGame operatorStrength =
     (let score0 = 50;
          score1 = (case operatorGame of
                      None \<Rightarrow> score0
                    | Some game \<Rightarrow>
                        if og_action game = ACT_BUY then
                          score0 + (if og_confidence game = HIGH then 30 else 20)
                        else if og_action game = ACT_SELL then
                          score0 - (if og_confidence game = HIGH then 30 else 20)
                        else if og_action game = AVOID then 30
                        else score0);
          score2 = (case operatorStrength of
                      None \<Rightarrow> score1
                    | Some strength \<Rightarrow> score1 + (os_score strength - 50) * (4 / 10))
      in clamp_0_100 score2)"

definition calculateVolumeScore :: "CandleData list \<Rightarrow> real" where
  "calculateVolumeScore candles =
     (if length candles < 10 then 50
      else
        let recent = slice_last 10 candles;
            avgVolume = reduce_sum c_volume recent / real (length recent);
            currentVolume = c_volume (recent ! (length recent - 1));
            volumeRatio = currentVolume / avgVolume;
            score0 = 50;
            lastCandle = recent ! (length recent - 1);
            isBullish = (c_close lastCandle > c_open lastCandle);
            score1 = (if volumeRatio > 2 then score0 + (if isBullish then 30 else - 30)
                      else if volumeRatio > 15 / 10 then score0 + (if isBullish then 20 else - 20)
                      else if volumeRatio > 12 / 10 then score0 + (if isBullish then 10 else - 10)
                      else if volumeRatio < 7 / 10 then score0 - 10
                      else score0)
        in clamp_0_100 score1)"

definition calculateMomentumScore :: "CandleData list \<Rightarrow> real \<Rightarrow> real" where
  "calculateMomentumScore candles rsi =
     (if length candles < 5 then 50
      else
        let recent = slice_last 5 candles;
            priceChange = ((c_close (recent ! 4) - c_close (recent ! 0)) / c_close (recent ! 0)) * 100;
            score0 = 50;
            score1 = (if priceChange > 3 then score0 + 30
                      else if priceChange > 15 / 10 then score0 + 20
                      else if priceChange > 5 / 10 then score0 + 10
                      else if priceChange < - 3 then score0 - 30
                      else if priceChange < - (15 / 10) then score0 - 20
                      else if priceChange < - (5 / 10) then score0 - 10
                      else score0);
            score2 = (if rsi > 60 \<and> priceChange > 0 then score1 + 10
                      else if rsi < 40 \<and> priceChange < 0 then score1 - 10
                      else score1)
        in clamp_0_100 score2)"

definition calculateVolatility :: "CandleData list \<Rightarrow> real" where
  "calculateVolatility candles =
     (if length candles < 20 then 50
      else
        let recent = slice_last 20 candles;
            returns = map (\<lambda>(i, c). ln (c_close c / c_close (recent ! i)))
                        (enumerate 0 (drop 1 recent));
            mean = reduce_sum (\<lambda>r. r) returns / real (length returns);
            variance = reduce_sum (\<lambda>r. (r - mean) ^ 2) returns / real (length returns);
            stdDev = sqrt variance
        in min 100 (stdDev * 2000))"

definition generateRecommendation ::
  "real \<Rightarrow> real \<Rightarrow> real \<Rightarrow> OperatorSignal option \<Rightarrow> MTFAnalysis option \<Rightarrow> Recommendation" where
  "generateRecommendation confidence probBullish risk operatorGame mtfAnalysis =
     (if map_option og_type operatorGame = Some BULL_TRAP \<or>
         map_option og_type operatorGame = Some PUMP_DUMP then STRONG_SELL
      else if map_option og_type operatorGame = Some BEAR_TRAP then STRONG_BUY
      else if risk > 75 \<and> probBullish > 60 then HOLD
      else if risk > 75 \<and> probBullish < 40 then HOLD
      else if confidence > 80 \<and> probBullish > 70 then STRONG_BUY
      else if confidence > 65 \<and> probBullish > 60 then BUY
      else if confidence > 80 \<and> probBullish < 30 then STRONG_SELL
      else if confidence > 65 \<and> probBullish < 40 then SELL
      else HOLD)"

definition determineTimeHorizon :: "MTFAnalysis option \<Rightarrow> SignalStrength \<Rightarrow> TimeHorizon" where
  "determineTimeHorizon mtfAnalysis strength =
     (case mtfAnalysis of
        None \<Rightarrow> INTRADAY
      | Some mtf \<Rightarrow>
          let htfAligned = (ts_trend (tf_1D (mtf_timeframes mtf)) = ts_trend (tf_4H (mtf_timeframes mtf)));
              ltfAligned = (ts_trend (tf_15m (mtf_timeframes mtf)) = ts_trend (tf_1H (mtf_timeframes mtf)))
          in if htfAligned \<and> strength = VERY_STRONG then POSITIONAL
             else if htfAligned then SWING
             else if ltfAligned then INTRADAY
             else SCALP)"

definition round2 :: "real \<Rightarrow> real" where
  \<comment> \<open>\<^verbatim>\<open>Math.round(x * 100) / 100\<close>.\<close>
  "round2 x = js_round (x * 100) / 100"

definition calculateTradeSetup ::
  "real \<Rightarrow> Recommendation \<Rightarrow> SMCAnalysis option \<Rightarrow> MTFAnalysis option \<Rightarrow> real \<Rightarrow> TradeSetup" where
  "calculateTradeSetup currentPrice rec smcAnalysis mtfAnalysis volatility =
     (let isBullish = (rec = STRONG_BUY \<or> rec = BUY);
          isBearish = (rec = STRONG_SELL \<or> rec = SELL);
          volatilityMultiplier = 1 + (volatility / 100) * (1 / 2);
          orderBlocks = (case smcAnalysis of None \<Rightarrow> [] | Some smc \<Rightarrow> smc_orderBlocks smc);
          support = (case mtfAnalysis of None \<Rightarrow> [] | Some mtf \<Rightarrow> kl_support (mtf_keyLevels mtf));
          resistance = (case mtfAnalysis of None \<Rightarrow> [] | Some mtf \<Rightarrow> kl_resistance (mtf_keyLevels mtf));
          finish = (\<lambda>entry target stopLoss.
                      let risk = \<bar>entry - stopLoss\<bar>;
                          reward = \<bar>target - entry\<bar>;
                          ratio = (if risk > 0 then reward / risk else 0)
                      in \<lparr>su_suggestedEntry = round2 entry, su_suggestedTarget = round2 target,
                          su_suggestedStopLoss = round2 stopLoss, su_riskRewardRatio = round2 ratio\<rparr>)
      in if isBullish then
           (let entry = (case find (\<lambda>ob. ob_type ob = SIDE_BULLISH) orderBlocks of
                           None \<Rightarrow> currentPrice
                         | Some bullishOB \<Rightarrow>
                             if ob_low bullishOB < currentPrice
                             then (ob_low bullishOB + ob_high bullishOB) / 2 else currentPrice);
                target = (if length resistance > 0 then resistance ! 0
                          else currentPrice * (1 + (3 / 100) * volatilityMultiplier));
                stopLoss = (if length support > 0 then support ! (length support - 1)
                            else currentPrice * (1 - (15 / 1000) * volatilityMultiplier))
            in finish entry target stopLoss)
         else if isBearish then
           (let entry = (case find (\<lambda>ob. ob_type ob = SIDE_BEARISH) orderBlocks of
                           None \<Rightarrow> currentPrice
                         | Some bearishOB \<Rightarrow>
                             if ob_high bearishOB > currentPrice
                             then (ob_low bearishOB + ob_high bearishOB) / 2 else currentPrice);
                target = (if length support > 0 then support ! (length support - 1)
                          else currentPrice * (1 - (3 / 100) * volatilityMultiplier));
                stopLoss = (if length resistance > 0 then resistance ! 0
                            else currentPrice * (1 + (15 / 1000) * volatilityMultiplier))
            in finish entry target stopLoss)
         else \<lparr>su_suggestedEntry = currentPrice, su_suggestedTarget = currentPrice,
               su_suggestedStopLoss = currentPrice, su_riskRewardRatio = 0\<rparr>)"

definition determinePositionSize :: "real \<Rightarrow> real \<Rightarrow> SignalStrength \<Rightarrow> PositionSize" where
  "determinePositionSize confidence risk strength =
     (if confidence > 80 \<and> risk < 40 \<and> strength = VERY_STRONG then LARGE
      else if confidence > 65 \<and> risk < 60 then PS_MEDIUM
      else SMALL)"

definition calculateAIConfidence ::
  "real \<Rightarrow> CandleData list \<Rightarrow> real \<Rightarrow> Direction \<Rightarrow> TechnicalSignal list \<Rightarrow>
   OperatorSignal option \<Rightarrow> OperatorStrength option \<Rightarrow> SMCAnalysis option \<Rightarrow>
   MTFAnalysis option \<Rightarrow> AIConfidence" where
  \<comment> \<open>The \<^verbatim>\<open>symbol\<close> argument is not read by the source and is left out.\<close>
  "calculateAIConfidence currentPrice candles rsi macdSignal technicalSignals operatorGame
       operatorStrength smcAnalysis mtfAnalysis =
     (let technicalScore = calculateTechnicalScore rsi macdSignal technicalSignals;
          smcScore = ai_calculateSMCScore smcAnalysis;
          mtfScore = calculateMTFScore mtfAnalysis;
          operatorScore = calculateOperatorScore operatorGame operatorStrength;
          volumeScore = calculateVolumeScore candles;
          momentumScore = calculateMomentumScore candles rsi;
          confidence = js_round
            (technicalScore * cs_technical COMPONENT_WEIGHTS +
             smcScore * cs_smc COMPONENT_WEIGHTS +
             mtfScore * cs_mtf COMPONENT_WEIGHTS +
             operatorScore * cs_operator COMPONENT_WEIGHTS +
             volumeScore * cs_volume COMPONENT_WEIGHTS +
             momentumScore * cs_momentum COMPONENT_WEIGHTS);
          normalizedScore = (confidence - 50) * 2;
          probBullish = max 0 (min 100 (50 + normalizedScore / 2));
          probBearish = 100 - probBullish;
          volatility = calculateVolatility candles;
          risk = js_round (100 - confidence * (7 / 10) + volatility * (3 / 10));
          strength = (if confidence > 85 then VERY_STRONG
                      else if confidence > 70 then SS_STRONG
                      else if confidence > 55 then SS_MODERATE
                      else if confidence > 40 then SS_WEAK
                      else VERY_WEAK);
          rec = generateRecommendation confidence probBullish risk operatorGame mtfAnalysis;
          horizon = determineTimeHorizon mtfAnalysis strength;
          setup = calculateTradeSetup currentPrice rec smcAnalysis mtfAnalysis volatility
      in \<lparr>tradeConfidenceScore = confidence,
          riskScore = risk,
          probabilityBullish = probBullish,
          probabilityBearish = probBearish,
          signalStrength = strength,
          recommendation = rec,
          timeHorizon = horizon,
          componentScores =
            \<lparr>cs_technical = technicalScore, cs_smc = smcScore, cs_mtf = mtfScore,
             cs_operator = operatorScore, cs_volume = volumeScore, cs_momentum = momentumScore\<rparr>,
          suggestedEntry = su_suggestedEntry setup,
          suggestedTarget = su_suggestedTarget setup,
          suggestedStopLoss = su_suggestedStopLoss setup,
          riskRewardRatio = su_riskRewardRatio setup,
          positionSize = determinePositionSize confidence risk strength\<rparr>)"

section \<open>Spec-side notions and concrete inputs\<close>

definition clamp :: "real \<Rightarrow> real \<Rightarrow> real \<Rightarrow> real" where
  \<comment> \<open>The specification's \<^verbatim>\<open>clamp(x, lo, hi)\<close>.\<close>
  "clamp x lo hi = max lo (min hi x)"

definition bar1 :: "real \<Rightarrow> real option \<Rightarrow> CandleData" where
  \<comment> \<open>Scenario A's first bar; the scenario leaves volume and timestamp open.\<close>
  "bar1 v t = \<lparr>c_open = 100, c_high = 101, c_low = 90, c_close = 92, c_volume = v, c_timestamp = t\<rparr>"

definition bar2 :: "real \<Rightarrow> real option \<Rightarrow> CandleData" where
  \<comment> \<open>Scenario A's second bar.\<close>
  "bar2 v t = \<lparr>c_open = 90, c_high = 106, c_low = 89, c_close = 105, c_volume = v, c_timestamp = t\<rparr>"

definition mk_bar :: "real \<Rightarrow> real \<Rightarrow> real \<Rightarrow> real \<Rightarrow> real \<Rightarrow> CandleData" where
  \<comment> \<open>A bar from open, high, low, close and volume, without a timestamp.\<close>
  "mk_bar opn hi lo cl vol =
     \<lparr>c_open = opn, c_high = hi, c_low = lo, c_close = cl, c_volume = vol, c_timestamp = None\<rparr>"

definition five_bars :: "CandleData list" where
  \<comment> \<open>Five hourly bars: one full group of four and a last group of one.\<close>
  "five_bars =
     [mk_bar 100 102 99 101 10, mk_bar 101 105 100 104 20, mk_bar 104 104 98 99 30,
      mk_bar 99 100 97 98 40, mk_bar 98 99 96 97 50]"

definition squeeze_series :: "CandleData list" where
  \<comment> \<open>Ten bars: a fall of ten percent over the first five, then a rally of more than
      five percent over the last three on ten times the usual volume.\<close>
  "squeeze_series =
     [mk_bar 101 (203 / 2) (199 / 2) 100 100,
      mk_bar 100 (201 / 2) (195 / 2) 98 100,
      mk_bar 98 (197 / 2) (191 / 2) 96 100,
      mk_bar 96 (193 / 2) (185 / 2) 93 100,
      mk_bar 93 (187 / 2) (179 / 2) 90 100,
      mk_bar (181 / 2) 91 (179 / 2) 90 100,
      mk_bar (181 / 2) 91 (179 / 2) 90 100,
      mk_bar 90 (181 / 2) (179 / 2) 90 100,
      mk_bar 90 (185 / 2) (179 / 2) 92 100,
      mk_bar 92 (191 / 2) (183 / 2) 95 1000]"

definition pump_squeeze_series :: "CandleData list" where
  \<comment> \<open>Ten bars on which two detectors fire: a spike of seven percent at the second bar
      followed by a slide (pump-and-dump), and a fall over the first five bars followed
      by a rally of five percent over the last three on a volume spike (short squeeze).\<close>
  "pump_squeeze_series =
     [mk_bar 101 (203 / 2) (199 / 2) 100 100,
      mk_bar 100 107 (199 / 2) 100 100,
      mk_bar 100 (201 / 2) (199 / 2) 100 100,
      mk_bar 100 (201 / 2) (179 / 2) 90 100,
      mk_bar 90 (181 / 2) (159 / 2) 80 100,
      mk_bar 80 (161 / 2) (139 / 2) 70 100,
      mk_bar 70 (141 / 2) (119 / 2) 60 100,
      mk_bar 60 (121 / 2) (115 / 2) 58 100,
      mk_bar 58 (121 / 2) (115 / 2) 60 100,
      mk_bar 60 (127 / 2) (119 / 2) 63 1000]"

definition bullish_signal :: "Timeframe \<Rightarrow> TimeframeSignal" where
  \<comment> \<open>A resolution with RSI 55 and a bullish MACD: score 25, trend BULLISH.\<close>
  "bullish_signal timeframe =
     \<lparr>ts_timeframe = timeframe, ts_trend = TREND_BULLISH, ts_score = 25, ts_rsi = 55,
      ts_macd = BULLISH, ts_ema = NEUTRAL, ts_priceAction = NEUTRAL, ts_volume = VOL_NORMAL,
      ts_confidence = 35\<rparr>"

definition split_timeframes :: Timeframes where
  \<comment> \<open>15m and 4H bullish, the other four resolutions neutral.\<close>
  "split_timeframes =
     \<lparr>tf_1m = getDefaultTimeframeSignal TF_1m, tf_5m = getDefaultTimeframeSignal TF_5m,
      tf_15m = bullish_signal TF_15m, tf_1H = getDefaultTimeframeSignal TF_1H,
      tf_4H = bullish_signal TF_4H, tf_1D = getDefaultTimeframeSignal TF_1D\<rparr>"

definition split_report :: MTFAnalysis where
  \<comment> \<open>The report over \<^const>\<open>split_timeframes\<close>.\<close>
  "split_report =
     \<lparr>mtf_currentPrice = 100, mtf_timeframes = split_timeframes,
      mtf_overallTrend = calculateOverallTrend split_timeframes,
      mtf_confidenceScore = calculateConfidenceScore split_timeframes,
      mtf_alignment = calculateAlignment split_timeframes,
      mtf_recommendation = HOLD,
      mtf_keyLevels = \<lparr>kl_support = [], kl_resistance = []\<rparr>\<rparr>"

definition neutral_call :: AIConfidence where
  \<comment> \<open>The engine on no bars, RSI 55, and no other evidence.\<close>
  "neutral_call = calculateAIConfidence 100 [] 55 NEUTRAL [] None None None None"

definition bearish_call :: AIConfidence where
  \<comment> \<open>The engine on no bars, an overbought RSI, a bearish MACD, two strong bearish
      patterns, a distribution verdict, a zero operator strength, no structure report
      and the default multi-timeframe report.\<close>
  "bearish_call =
     calculateAIConfidence 100 [] 75 BEARISH
       [\<lparr>sig_pattern = ''Bearish Engulfing'', sig_signal = BEARISH, sig_strength = STRONG\<rparr>,
        \<lparr>sig_pattern = ''Evening Star'', sig_signal = BEARISH, sig_strength = STRONG\<rparr>]
       (Some \<lparr>og_type = DISTRIBUTION, og_confidence = HIGH, og_action = ACT_SELL\<rparr>)
       (Some \<lparr>os_score = 0, os_sentiment = BEARISH\<rparr>)
       None (Some getDefaultMTFAnalysis)"

definition one_strong_block :: "OrderBlock list" where
  "one_strong_block =
     [\<lparr>ob_type = SIDE_BULLISH, ob_high = 101, ob_low = 99, ob_timestamp = 1, ob_strength = STRONG\<rparr>]"

definition one_bearish_gap :: "FairValueGap list" where
  "one_bearish_gap =
     [\<lparr>fvg_type = SIDE_BEARISH, fvg_top = 105, fvg_bottom = 104, fvg_timestamp = 2,
       fvg_filled = False\<rparr>]"

text \<open>
  Evidence within the list lengths that \<^verbatim>\<open>analyzeSMC\<close> returns, with a bullish sum of
  115 and a bearish sum of 85.
\<close>

definition tie_sweeps :: "LiquiditySweep list" where
  "tie_sweeps =
     [\<lparr>ls_type = SIDE_BULLISH, ls_price = 95, ls_timestamp = 30, ls_confidence = MEDIUM\<rparr>,
      \<lparr>ls_type = SIDE_BEARISH, ls_price = 110, ls_timestamp = 40, ls_confidence = MEDIUM\<rparr>]"

definition tie_blocks :: "OrderBlock list" where
  "tie_blocks =
     [\<lparr>ob_type = SIDE_BEARISH, ob_high = 111, ob_low = 109, ob_timestamp = 41, ob_strength = STRONG\<rparr>,
      \<lparr>ob_type = SIDE_BEARISH, ob_high = 108, ob_low = 106, ob_timestamp = 45, ob_strength = STRONG\<rparr>]"

definition tie_gaps :: "FairValueGap list" where
  "tie_gaps =
     [\<lparr>fvg_type = SIDE_BULLISH, fvg_top = 97, fvg_bottom = 96, fvg_timestamp = 31, fvg_filled = False\<rparr>,
      \<lparr>fvg_type = SIDE_BULLISH, fvg_top = 99, fvg_bottom = 98, fvg_timestamp = 33, fvg_filled = False\<rparr>,
      \<lparr>fvg_type = SIDE_BEARISH, fvg_top = 108, fvg_bottom = 107, fvg_timestamp = 42, fvg_filled = False\<rparr>,
      \<lparr>fvg_type = SIDE_BEARISH, fvg_top = 105, fvg_bottom = 104, fvg_timestamp = 46, fvg_filled = False\<rparr>,
      \<lparr>fvg_type = SIDE_BULLISH, fvg_top = 103, fvg_bottom = 102, fvg_timestamp = 55, fvg_filled = False\<rparr>]"

definition tie_bos :: BreakOfStructure where
  "tie_bos = \<lparr>bos_type = BULLISH_BOS, bos_price = 112, bos_timestamp = 63,
              bos_previousStructure = 111\<rparr>"

definition tie_choch :: ChangeOfCharacter where
  "tie_choch = \<lparr>choch_type = BULLISH_CHOCH, choch_price = 112, choch_timestamp = 63,
                choch_significance = HIGH\<rparr>"

definition tie_candles :: "InstitutionalCandle list" where
  "tie_candles = [\<lparr>ic_index = 41, ic_type = SIDE_BEARISH, ic_volume = 5000, ic_bodySize = 3\<rparr>]"

section \<open>Helper facts\<close>

lemma foldl_add_sum_list:
  "foldl (\<lambda>sum c. sum + f c) a xs = a + sum_list (map f xs)" for a :: real
  by (induction xs arbitrary: a) simp_all

lemma reduce_sum_sum_list: "reduce_sum f xs = sum_list (map f xs)"
  by (simp add: reduce_sum_def foldl_add_sum_list)

lemma max_list_Max: "xs \<noteq> [] \<Longrightarrow> max_list xs = Max (set xs)"
  by (cases xs) (simp_all add: max_list_def Max.set_eq_fold [symmetric])

lemma min_list_Min: "xs \<noteq> [] \<Longrightarrow> min_list xs = Min (set xs)"
  by (cases xs) (simp_all add: min_list_def Min.set_eq_fold [symmetric])

lemma slice_length: "length (slice i j xs) = min (j - i) (length xs - i)"
  by (simp add: slice_def)

lemma js_round_bounds:
  assumes "0 \<le> x" "x \<le> 100"
  shows "0 \<le> js_round x \<and> js_round x \<le> 100"
proof -
  have "0 \<le> \<lfloor>x + 1 / 2\<rfloor>" using assms by simp
  moreover have "\<lfloor>x + 1 / 2\<rfloor> \<le> 100"
  proof -
    have "x + 1 / 2 < 101" using assms by simp
    then have "\<lfloor>x + 1 / 2\<rfloor> < 101" by (simp add: floor_less_iff)
    then show ?thesis by simp
  qed
  ultimately show ?thesis by (simp add: js_round_def)
qed

lemma clamp_0_100_bounds: "0 \<le> clamp_0_100 x \<and> clamp_0_100 x \<le> 100"
  by (simp add: clamp_0_100_def)

subsection \<open>Rounding to a double: exponent, error and range\<close>

lemma binade_nonneg_exp:
  "2 ^ k \<le> x \<Longrightarrow> x < 2 ^ Suc k \<Longrightarrow> k < n \<Longrightarrow> binade n x = int k"
proof (induction k arbitrary: n x)
  case 0
  then obtain m where "n = Suc m" by (cases n) auto
  with 0 show ?case by simp
next
  case (Suc k)
  then obtain m where n: "n = Suc m" by (cases n) auto
  have "2 \<le> x"
  proof -
    have "(2::real) \<le> 2 ^ Suc k" by (simp add: self_le_power)
    with Suc.prems(1) show ?thesis by linarith
  qed
  moreover have "binade m (x / 2) = int k"
    using Suc.prems n by (intro Suc.IH) (simp_all add: field_simps)
  ultimately show ?case using n by simp
qed

lemma binade_neg_exp:
  "1 \<le> x * 2 ^ k \<Longrightarrow> x * 2 ^ k < 2 \<Longrightarrow> k < n \<Longrightarrow> binade n x = - int k"
proof (induction k arbitrary: n x)
  case 0
  then obtain m where "n = Suc m" by (cases n) auto
  with 0 show ?case by simp
next
  case (Suc k)
  then obtain m where n: "n = Suc m" by (cases n) auto
  have "x < 1"
  proof -
    have "(2::real) \<le> 2 ^ Suc k" by (simp add: self_le_power)
    moreover have "0 < x" using Suc.prems(1)
      by (metis less_le_trans mult_pos_pos not_less not_one_le_zero zero_less_mult_pos2 zero_less_numeral zero_less_power zero_less_one)
    ultimately have "x * 2 \<le> x * 2 ^ Suc k" by (intro mult_left_mono) simp_all
    with Suc.prems(2) show ?thesis by linarith
  qed
  moreover have "binade m (x * 2) = - int k"
    using Suc.prems n by (intro Suc.IH) (simp_all add: field_simps)
  ultimately show ?case using n by simp
qed

lemma round_half_even_error: "\<bar>of_int (round_half_even y) - y\<bar> \<le> 1 / 2"
  unfolding round_half_even_def Let_def by (auto simp: abs_le_iff)

lemma round_half_even_bounds:
  "of_int a \<le> y \<Longrightarrow> y \<le> of_int b \<Longrightarrow> a \<le> round_half_even y \<and> round_half_even y \<le> b"
  unfolding round_half_even_def Let_def
  by (auto simp: le_floor_iff floor_le_iff) linarith+


lemma pow2_neg: "pow2 (- int k) = 1 / 2 ^ k"
  by (simp add: pow2_def)

lemma pow2_diff: "k \<le> 52 \<Longrightarrow> pow2 (int k - 52) = 1 / 2 ^ (52 - k)"
  by (simp add: pow2_def nat_diff_distrib')

lemma to_double_below_one:
  assumes "1 / 2 \<le> x" "x < 1"
  shows "to_double x = of_int (round_half_even (x * 2 ^ 53)) / 2 ^ 53"
proof -
  have "binade 1100 x = - int 1"
    using assms by (intro binade_neg_exp) simp_all
  then show ?thesis
    using assms by (simp add: to_double_def Let_def pow2_def)
qed

lemma to_double_binade:
  assumes "2 ^ k \<le> x" "x < 2 ^ Suc k" "k \<le> 52"
  shows "to_double x = of_int (round_half_even (x * 2 ^ (52 - k))) / 2 ^ (52 - k)"
proof -
  have pos: "0 < x"
    using assms(1) by (meson less_le_trans zero_less_numeral zero_less_power)
  have "binade 1100 x = int k"
    using assms by (intro binade_nonneg_exp) simp_all
  then show ?thesis
    using pos assms(3) by (simp add: to_double_def Let_def pow2_diff)
qed

lemma to_double_zero: "to_double 0 = 0"
  by (simp add: to_double_def)

lemma to_double_one: "to_double 1 = 1"
  using to_double_binade [of 0 1] by (simp add: round_half_even_def)

lemma scaled_round_error:
  assumes "0 < (u::real)"
  shows "\<bar>of_int (round_half_even (x * u)) / u - x\<bar> \<le> 1 / (2 * u)"
proof -
  have h: "\<bar>of_int (round_half_even (x * u)) - x * u\<bar> \<le> 1 / 2"
    by (rule round_half_even_error)
  have "\<bar>of_int (round_half_even (x * u)) - x * u\<bar> / u \<le> (1 / 2) / u"
    by (rule divide_right_mono [OF h]) (use assms in simp)
  moreover have "of_int (round_half_even (x * u)) / u - x
      = (of_int (round_half_even (x * u)) - x * u) / u"
    using assms by (simp add: diff_divide_distrib)
  then have "\<bar>of_int (round_half_even (x * u)) - x * u\<bar> / u
      = \<bar>of_int (round_half_even (x * u)) / u - x\<bar>"
    using assms by simp
  ultimately show ?thesis by simp
qed

lemma scaled_round_bounds:
  assumes "0 < (u::real)" "of_int a \<le> x * u" "x * u \<le> of_int b"
  shows "of_int a / u \<le> of_int (round_half_even (x * u)) / u"
    and "of_int (round_half_even (x * u)) / u \<le> of_int b / u"
  using round_half_even_bounds [OF assms(2,3)] assms(1)
  by (simp_all add: divide_right_mono)

lemma to_double_quotient:
  assumes "1 / 2 \<le> x" "x \<le> 1"
  shows "\<bar>to_double x - x\<bar> \<le> 1 / 2 ^ 54 \<and> 1 / 2 \<le> to_double x \<and> to_double x \<le> 1"
proof (cases "x = 1")
  case True
  then show ?thesis by (simp add: to_double_one)
next
  case False
  with assms have lt: "x < 1" by simp
  note eq = to_double_below_one [OF assms(1) lt]
  have err: "\<bar>to_double x - x\<bar> \<le> 1 / 2 ^ 54"
    using scaled_round_error [of "2 ^ 53" x] unfolding eq by simp
  have lo: "of_int (2 ^ 52) \<le> x * 2 ^ 53" using assms(1) by simp
  have hi: "x * 2 ^ 53 \<le> of_int (2 ^ 53)" using assms(2) by simp
  from scaled_round_bounds [OF _ lo hi] have "1 / 2 \<le> to_double x" "to_double x \<le> 1"
    unfolding eq by simp_all
  with err show ?thesis by simp
qed

lemma to_double_product:
  assumes "50 \<le> x" "x \<le> 100"
  shows "\<bar>to_double x - x\<bar> \<le> 1 / 2 ^ 47 \<and> 50 \<le> to_double x \<and> to_double x \<le> 100"
proof (cases "x < 64")
  case True
  have eq: "to_double x = of_int (round_half_even (x * 2 ^ 47)) / 2 ^ 47"
    using to_double_binade [of 5 x] assms True by simp
  have err: "\<bar>to_double x - x\<bar> \<le> 1 / 2 ^ 48"
    using scaled_round_error [of "2 ^ 47" x] unfolding eq by simp
  have lo: "of_int (50 * 2 ^ 47) \<le> x * 2 ^ 47" using assms(1) by simp
  have hi: "x * 2 ^ 47 \<le> of_int (100 * 2 ^ 47)" using assms(2) by simp
  from scaled_round_bounds [OF _ lo hi] have "50 \<le> to_double x" "to_double x \<le> 100"
    unfolding eq by simp_all
  with err show ?thesis by simp
next
  case False
  have eq: "to_double x = of_int (round_half_even (x * 2 ^ 46)) / 2 ^ 46"
    using to_double_binade [of 6 x] assms False by simp
  have err: "\<bar>to_double x - x\<bar> \<le> 1 / 2 ^ 47"
    using scaled_round_error [of "2 ^ 46" x] unfolding eq by simp
  have lo: "of_int (50 * 2 ^ 46) \<le> x * 2 ^ 46" using assms(1) by simp
  have hi: "x * 2 ^ 46 \<le> of_int (100 * 2 ^ 46)" using assms(2) by simp
  from scaled_round_bounds [OF _ lo hi] have "50 \<le> to_double x" "to_double x \<le> 100"
    unfolding eq by simp_all
  with err show ?thesis by simp
qed

lemma js_round_error: "\<bar>js_round x - x\<bar> \<le> 1 / 2"
proof -
  have "of_int \<lfloor>x + 1 / 2\<rfloor> \<le> x + 1 / 2" "x + 1 / 2 < of_int \<lfloor>x + 1 / 2\<rfloor> + 1"
    using floor_correct [of "x + 1 / 2"] by simp_all
  then show ?thesis
    unfolding js_round_def abs_le_iff by linarith
qed

lemma double_percentage:
  assumes "1 / 2 \<le> q" "q \<le> 1"
  shows "50 \<le> js_round (to_double (to_double q * 100))
    \<and> js_round (to_double (to_double q * 100)) \<le> 100
    \<and> \<bar>js_round (to_double (to_double q * 100)) - q * 100\<bar> \<le> 1 / 2 + 1 / 2 ^ 46"
proof -
  let ?q = "to_double q"
  let ?p = "to_double (?q * 100)"
  from to_double_quotient [OF assms]
  have q: "\<bar>?q - q\<bar> \<le> 1 / 2 ^ 54" "1 / 2 \<le> ?q" "?q \<le> 1" by simp_all
  then have "50 \<le> ?q * 100" "?q * 100 \<le> 100" by simp_all
  from to_double_product [OF this]
  have p: "\<bar>?p - ?q * 100\<bar> \<le> 1 / 2 ^ 47" "50 \<le> ?p" "?p \<le> 100" by simp_all
  have r: "\<bar>js_round ?p - ?p\<bar> \<le> 1 / 2" by (rule js_round_error)
  have "\<bar>?q * 100 - q * 100\<bar> \<le> 100 / 2 ^ 54"
    using q(1) unfolding abs_le_iff by linarith
  with p(1) r have "\<bar>js_round ?p - q * 100\<bar> \<le> 1 / 2 + 1 / 2 ^ 47 + 100 / 2 ^ 54"
    unfolding abs_le_iff by linarith
  then have err: "\<bar>js_round ?p - q * 100\<bar> \<le> 1 / 2 + 1 / 2 ^ 46"
    by simp
  have "50 \<le> js_round ?p"
  proof -
    have "(50::int) \<le> \<lfloor>?p + 1 / 2\<rfloor>" using p(2) by (simp add: le_floor_iff)
    then show ?thesis by (simp add: js_round_def)
  qed
  moreover have "js_round ?p \<le> 100"
    using js_round_bounds [of ?p] p by simp
  ultimately show ?thesis using err by simp
qed

section \<open>Properties of the confidence engine\<close>

subsection \<open>Every component score lies in \<open>[0, 100]\<close>\<close>

lemma calculateTechnicalScore_bounds:
  "0 \<le> calculateTechnicalScore r m s \<and> calculateTechnicalScore r m s \<le> 100"
  unfolding calculateTechnicalScore_def Let_def by (rule clamp_0_100_bounds)

lemma ai_calculateSMCScore_bounds:
  "0 \<le> ai_calculateSMCScore a \<and> ai_calculateSMCScore a \<le> 100"
proof (cases a)
  case None
  then show ?thesis by (simp add: ai_calculateSMCScore_def)
next
  case (Some smc)
  then show ?thesis
    by (simp add: ai_calculateSMCScore_def Let_def clamp_0_100_bounds del: if_split)
qed

lemma calculateMTFScore_bounds:
  "0 \<le> calculateMTFScore a \<and> calculateMTFScore a \<le> 100"
proof (cases a)
  case None
  then show ?thesis by (simp add: calculateMTFScore_def)
next
  case (Some mtf)
  then show ?thesis
    by (simp add: calculateMTFScore_def Let_def clamp_0_100_bounds del: if_split)
qed

lemma calculateOperatorScore_bounds:
  "0 \<le> calculateOperatorScore g s \<and> calculateOperatorScore g s \<le> 100"
  unfolding calculateOperatorScore_def Let_def by (rule clamp_0_100_bounds)

lemma calculateVolumeScore_bounds:
  "0 \<le> calculateVolumeScore cs \<and> calculateVolumeScore cs \<le> 100"
proof (cases "length cs < 10")
  case True
  then show ?thesis by (simp add: calculateVolumeScore_def)
next
  case False
  then show ?thesis
    unfolding calculateVolumeScore_def Let_def by (simp only: if_False clamp_0_100_bounds)
qed

lemma calculateMomentumScore_bounds:
  "0 \<le> calculateMomentumScore cs r \<and> calculateMomentumScore cs r \<le> 100"
proof (cases "length cs < 5")
  case True
  then show ?thesis by (simp add: calculateMomentumScore_def)
next
  case False
  then show ?thesis
    unfolding calculateMomentumScore_def Let_def by (simp only: if_False clamp_0_100_bounds)
qed

lemma calculateVolatility_bounds:
  "0 \<le> calculateVolatility cs \<and> calculateVolatility cs \<le> 100"
proof (cases "length cs < 20")
  case True
  then show ?thesis by (simp add: calculateVolatility_def)
next
  case False
  have "0 \<le> reduce_sum (\<lambda>r. (r - m) ^ 2) rs" for m :: real and rs
    by (auto simp: reduce_sum_sum_list intro!: sum_list_nonneg)
  then have "0 \<le> sqrt (reduce_sum (\<lambda>r. (r - m) ^ 2) rs / real n) * 2000" for m :: real and rs n
    by simp
  with False show ?thesis
    by (simp add: calculateVolatility_def Let_def)
qed

lemma weighted_bounds:
  fixes t s m p v q :: real
  assumes "0 \<le> t \<and> t \<le> 100" "0 \<le> s \<and> s \<le> 100" "0 \<le> m \<and> m \<le> 100"
    "0 \<le> p \<and> p \<le> 100" "0 \<le> v \<and> v \<le> 100" "0 \<le> q \<and> q \<le> 100"
  shows "0 \<le> t * (15 / 100) + s * (25 / 100) + m * (25 / 100) + p * (20 / 100)
               + v * (10 / 100) + q * (5 / 100)
       \<and> t * (15 / 100) + s * (25 / 100) + m * (25 / 100) + p * (20 / 100)
               + v * (10 / 100) + q * (5 / 100) \<le> 100"
  using assms by simp

subsection \<open>The fields of the result\<close>

lemma tradeConfidenceScore_eq:
  "tradeConfidenceScore (calculateAIConfidence p cs r m sig g s a b) =
     js_round (calculateTechnicalScore r m sig * (15 / 100) + ai_calculateSMCScore a * (25 / 100)
       + calculateMTFScore b * (25 / 100) + calculateOperatorScore g s * (20 / 100)
       + calculateVolumeScore cs * (10 / 100) + calculateMomentumScore cs r * (5 / 100))"
  by (simp only: calculateAIConfidence_def Let_def COMPONENT_WEIGHTS_def
      AIConfidence.select_convs ComponentScores.select_convs)

lemma probabilityBullish_eq:
  "probabilityBullish (calculateAIConfidence p cs r m sig g s a b) =
     max 0 (min 100 (50 + (tradeConfidenceScore (calculateAIConfidence p cs r m sig g s a b) - 50) * 2 / 2))"
  by (simp only: calculateAIConfidence_def Let_def AIConfidence.select_convs)

lemma probabilityBearish_eq:
  "probabilityBearish (calculateAIConfidence p cs r m sig g s a b) =
     100 - probabilityBullish (calculateAIConfidence p cs r m sig g s a b)"
  by (simp only: calculateAIConfidence_def Let_def AIConfidence.select_convs)

lemma riskScore_eq:
  "riskScore (calculateAIConfidence p cs r m sig g s a b) =
     js_round (100 - tradeConfidenceScore (calculateAIConfidence p cs r m sig g s a b) * (7 / 10)
                 + calculateVolatility cs * (3 / 10))"
  by (simp only: calculateAIConfidence_def Let_def AIConfidence.select_convs)

lemma tradeConfidenceScore_bounds:
  "0 \<le> tradeConfidenceScore (calculateAIConfidence p cs r m sig g s a b)
   \<and> tradeConfidenceScore (calculateAIConfidence p cs r m sig g s a b) \<le> 100"
proof -
  note weighted_bounds [OF calculateTechnicalScore_bounds [of r m sig]
      ai_calculateSMCScore_bounds [of a] calculateMTFScore_bounds [of b]
      calculateOperatorScore_bounds [of g s] calculateVolumeScore_bounds [of cs]
      calculateMomentumScore_bounds [of cs r]]
  then show ?thesis
    unfolding tradeConfidenceScore_eq using js_round_bounds by presburger
qed

subsection \<open>Two concrete calls\<close>

lemma neutral_components:
  "calculateTechnicalScore 55 NEUTRAL [] = 65"
  "ai_calculateSMCScore None = 50" "calculateMTFScore None = 50"
  "calculateOperatorScore None None = 50"
  "calculateVolumeScore [] = 50" "calculateMomentumScore [] r = 50" "calculateVolatility [] = 50"
  by (simp_all add: calculateTechnicalScore_def ai_calculateSMCScore_def calculateMTFScore_def
      calculateOperatorScore_def calculateVolumeScore_def calculateMomentumScore_def
      calculateVolatility_def clamp_0_100_def Let_def)

lemma bearish_components:
  "calculateTechnicalScore 75 BEARISH
       [\<lparr>sig_pattern = ''Bearish Engulfing'', sig_signal = BEARISH, sig_strength = STRONG\<rparr>,
        \<lparr>sig_pattern = ''Evening Star'', sig_signal = BEARISH, sig_strength = STRONG\<rparr>] = 0"
  "calculateOperatorScore (Some \<lparr>og_type = DISTRIBUTION, og_confidence = HIGH, og_action = ACT_SELL\<rparr>)
       (Some \<lparr>os_score = 0, os_sentiment = BEARISH\<rparr>) = 0"
  "calculateMTFScore (Some getDefaultMTFAnalysis) = 0"
  by (simp_all add: calculateTechnicalScore_def calculateOperatorScore_def clamp_0_100_def
      pattern_step_def calculateMTFScore_def getDefaultMTFAnalysis_def Let_def)

lemma neutral_conf: "tradeConfidenceScore neutral_call = 52"
  unfolding neutral_call_def tradeConfidenceScore_eq
  by (simp add: neutral_components js_round_def)

lemma bearish_conf: "tradeConfidenceScore bearish_call = 20"
  unfolding bearish_call_def tradeConfidenceScore_eq
  by (simp add: neutral_components bearish_components js_round_def)

subsection \<open>The risk score\<close>

text \<open>
  Claim C1. The claim asks for a risk score equal to
  \<open>clamp(100 - 0.7 \<times> overallConfidence + 0.3 \<times> volatility, 0, 100)\<close>, within \<open>[0, 100]\<close>.
  The source computes
  \<^verbatim>\<open>Math.round(100 - tradeConfidenceScore * 0.7 + volatility * 0.3)\<close> and does not
  clamp it. At \<^const>\<open>bearish_call\<close> the confidence is 20 and the volatility 50: the
  risk score is 101, where the clamp gives 100. The interface documents the field as
  \<^verbatim>\<open>0-100\<close>, and each of the six component scores ends in the clamp that the risk
  score lacks.
\<close>

theorem riskScore_exceeds_100:
  "tradeConfidenceScore bearish_call = 20
   \<and> calculateVolatility [] = 50
   \<and> riskScore bearish_call = 101
   \<and> clamp (100 - tradeConfidenceScore bearish_call * (7 / 10) + calculateVolatility [] * (3 / 10))
         0 100 = 100"
proof -
  have "riskScore bearish_call = 101"
    using bearish_conf unfolding bearish_call_def riskScore_eq
    by (simp add: neutral_components js_round_def)
  then show ?thesis
    by (simp add: bearish_conf neutral_components clamp_def)
qed

text \<open>
  Inside the range the source differs from the clamped expression by its rounding to
  an integer: at \<^const>\<open>neutral_call\<close> (confidence 52, volatility 50) the expression
  is 78.6 and the risk score 79.
\<close>

lemma riskScore_rounds:
  "riskScore neutral_call = 79
   \<and> clamp (100 - tradeConfidenceScore neutral_call * (7 / 10) + calculateVolatility [] * (3 / 10))
         0 100 = 393 / 5"
proof -
  have "riskScore neutral_call = 79"
    using neutral_conf unfolding neutral_call_def riskScore_eq
    by (simp add: neutral_components js_round_def)
  then show ?thesis
    by (simp add: neutral_conf neutral_components clamp_def)
qed

subsection \<open>The directional probabilities\<close>

text \<open>
  Claim C2. For every input, the confidence engine's \<^verbatim>\<open>tradeConfidenceScore\<close> (the
  overall confidence) lies in \<open>[0, 100]\<close>, \<^verbatim>\<open>probabilityBullish\<close> equals
  \<open>clamp(50 + (overallConfidence - 50), 0, 100)\<close>, \<^verbatim>\<open>probabilityBearish\<close> equals
  \<open>100 - probabilityBullish\<close>, and the two probabilities sum to exactly 100.
\<close>

theorem probabilities_sum_to_100:
  "probabilityBullish (calculateAIConfidence p cs r m sig g s a b)
     = clamp (50 + (tradeConfidenceScore (calculateAIConfidence p cs r m sig g s a b) - 50)) 0 100
   \<and> probabilityBearish (calculateAIConfidence p cs r m sig g s a b)
     = 100 - probabilityBullish (calculateAIConfidence p cs r m sig g s a b)
   \<and> probabilityBullish (calculateAIConfidence p cs r m sig g s a b)
     + probabilityBearish (calculateAIConfidence p cs r m sig g s a b) = 100
   \<and> 0 \<le> tradeConfidenceScore (calculateAIConfidence p cs r m sig g s a b)
   \<and> tradeConfidenceScore (calculateAIConfidence p cs r m sig g s a b) \<le> 100"
proof -
  have "probabilityBullish (calculateAIConfidence p cs r m sig g s a b)
     = clamp (50 + (tradeConfidenceScore (calculateAIConfidence p cs r m sig g s a b) - 50)) 0 100"
    unfolding probabilityBullish_eq by (simp add: clamp_def diff_divide_distrib)
  moreover have "probabilityBullish (calculateAIConfidence p cs r m sig g s a b)
     + probabilityBearish (calculateAIConfidence p cs r m sig g s a b) = 100"
    unfolding probabilityBearish_eq by simp
  ultimately show ?thesis
    using tradeConfidenceScore_bounds [of p cs r m sig g s a b]
      probabilityBearish_eq [of p cs r m sig g s a b] by simp
qed

subsection \<open>The time horizon\<close>

text \<open>
  Claim C6, as amended. For every multi-timeframe report, when the two
  highest-weighted resolutions (1D and 4H) agree on trend the horizon is POSITIONAL
  (signal strength VERY_STRONG) or SWING (otherwise); when they disagree, the horizon
  is INTRADAY if the 15m and 1H resolutions agree, and SCALP if they do not. The 15m
  and 1H resolutions are the third- and fourth-lowest weighted, not the two lowest.
\<close>

theorem determineTimeHorizon_agreement:
  "determineTimeHorizon (Some mtf) strength =
     (if ts_trend (tf_1D (mtf_timeframes mtf)) = ts_trend (tf_4H (mtf_timeframes mtf))
      then (if strength = VERY_STRONG then POSITIONAL else SWING)
      else if ts_trend (tf_15m (mtf_timeframes mtf)) = ts_trend (tf_1H (mtf_timeframes mtf))
      then INTRADAY
      else SCALP)
   \<and> TIMEFRAME_WEIGHTS TF_1m < TIMEFRAME_WEIGHTS TF_5m
   \<and> TIMEFRAME_WEIGHTS TF_5m < TIMEFRAME_WEIGHTS TF_15m
   \<and> TIMEFRAME_WEIGHTS TF_15m < TIMEFRAME_WEIGHTS TF_1H
   \<and> TIMEFRAME_WEIGHTS TF_1H < TIMEFRAME_WEIGHTS TF_4H
   \<and> TIMEFRAME_WEIGHTS TF_4H < TIMEFRAME_WEIGHTS TF_1D"
  by (simp add: determineTimeHorizon_def Let_def TIMEFRAME_WEIGHTS_def)

text \<open>
  Claim C6 as stated fails at \<^const>\<open>split_report\<close>: 1D and 4H disagree, the two
  lowest-weighted resolutions 1m and 5m agree (both neutral), and the horizon is
  SCALP, not INTRADAY, because 15m and 1H disagree.
\<close>

theorem lowest_two_agree_yet_scalp:
  "ts_trend (tf_1D (mtf_timeframes split_report)) \<noteq> ts_trend (tf_4H (mtf_timeframes split_report))
   \<and> ts_trend (tf_1m (mtf_timeframes split_report)) = ts_trend (tf_5m (mtf_timeframes split_report))
   \<and> TIMEFRAME_WEIGHTS TF_1m < TIMEFRAME_WEIGHTS TF_5m
   \<and> list_all (\<lambda>tf. TIMEFRAME_WEIGHTS TF_5m < TIMEFRAME_WEIGHTS tf) [TF_15m, TF_1H, TF_4H, TF_1D]
   \<and> list_all (\<lambda>strength. determineTimeHorizon (Some split_report) strength = SCALP)
        [VERY_STRONG, SS_STRONG, SS_MODERATE, SS_WEAK, VERY_WEAK]"
  by (simp add: determineTimeHorizon_def Let_def split_report_def split_timeframes_def
      bullish_signal_def getDefaultTimeframeSignal_def TIMEFRAME_WEIGHTS_def)

section \<open>Properties of the candlestick detector\<close>

text \<open>
  Claim C7, as amended. \<^verbatim>\<open>detectCandlestickPatterns\<close> returns no signal on fewer than
  three bars. On every series of three bars or more whose last two bars are Scenario
  A's bar1 \<open>{open 100, high 101, low 90, close 92}\<close> and bar2
  \<open>{open 90, high 106, low 89, close 105}\<close>, the first signal reported is
  \<open>{label "Bullish Engulfing", direction BULLISH, strength STRONG}\<close>; the only other
  signal possible is a Morning Star, which depends on the bar before bar1.
\<close>

theorem bullish_engulfing_three_bars:
  "detectCandlestickPatterns (earlier @ [b0, bar1 v1 t1, bar2 v2 t2]) =
     \<lparr>sig_pattern = ''Bullish Engulfing'', sig_signal = BULLISH, sig_strength = STRONG\<rparr>
     # push_if (isMorningStar b0 (bar1 v1 t1) (bar2 v2 t2))
         \<lparr>sig_pattern = ''Morning Star'', sig_signal = BULLISH, sig_strength = STRONG\<rparr>"
proof -
  let ?cs = "earlier @ [b0, bar1 v1 t1, bar2 v2 t2]"
  have cur: "?cs ! (length ?cs - 1) = bar2 v2 t2"
    by (simp add: nth_append)
  have prev: "?cs ! (length ?cs - 2) = bar1 v1 t1"
    by (simp add: nth_append)
  have two: "?cs ! (length ?cs - 3) = b0"
    by (simp add: nth_append)
  have be: "isBullishEngulfing (bar1 v1 t1) (bar2 v2 t2)"
    by (simp add: isBullishEngulfing_def bar1_def bar2_def)
  have others: "\<not> isHammer (bar2 v2 t2)" "\<not> isPiercingPattern (bar1 v1 t1) (bar2 v2 t2)"
    "\<not> isBearishEngulfing (bar1 v1 t1) (bar2 v2 t2)" "\<not> isEveningstar b0 (bar1 v1 t1) (bar2 v2 t2)"
    "\<not> isShootingStar (bar2 v2 t2)" "\<not> isDarkCloudCover (bar1 v1 t1) (bar2 v2 t2)"
    "\<not> isDoji (bar2 v2 t2)"
    by (simp_all add: isHammer_def isPiercingPattern_def isBearishEngulfing_def isEveningstar_def
        isShootingStar_def isDarkCloudCover_def isDoji_def bar1_def bar2_def Let_def)
  have "\<not> length ?cs < 3" by simp
  then show ?thesis
    unfolding detectCandlestickPatterns_def Let_def cur prev two
    by (simp add: be others push_if_def del: append.simps length_append)
qed

text \<open>
  Claim C7 as stated fails: on the two-bar series of Scenario A itself the detector
  returns the empty list, since it asks for three bars before it looks at any pattern.
\<close>

theorem two_bars_no_signal:
  "detectCandlestickPatterns [bar1 1000 None, bar2 1000 None] = []"
  by (simp add: detectCandlestickPatterns_def)

section \<open>Properties of the structure analysis\<close>

text \<open>
  Claim C3. For every candle series with fewer than 50 bars, \<^verbatim>\<open>analyzeSMC\<close> returns
  the default report: market structure RANGING, every event list empty, no BOS and no
  CHOCH, overall confidence 0, recommendation HOLD. The function is total on such
  series: it reads nothing but the length before it returns.
\<close>

theorem analyzeSMC_short:
  assumes "length candles < 50"
  shows "analyzeSMC candles = getDefaultAnalysis
    \<and> smc_marketStructure (analyzeSMC candles) = RANGING
    \<and> smc_liquiditySweeps (analyzeSMC candles) = []
    \<and> smc_orderBlocks (analyzeSMC candles) = []
    \<and> smc_fairValueGaps (analyzeSMC candles) = []
    \<and> smc_institutionalCandles (analyzeSMC candles) = []
    \<and> smc_supplyDemandZones (analyzeSMC candles) = []
    \<and> smc_bos (analyzeSMC candles) = None
    \<and> smc_choch (analyzeSMC candles) = None
    \<and> smc_overallConfidence (analyzeSMC candles) = 0
    \<and> smc_recommendation (analyzeSMC candles) = HOLD"
proof -
  have "analyzeSMC candles = getDefaultAnalysis"
    using assms by (simp add: analyzeSMC_def)
  then show ?thesis by (simp add: getDefaultAnalysis_def)
qed

text \<open>Scenario D: a series of ten bars.\<close>

theorem analyzeSMC_short_witness:
  "length (replicate 10 (mk_bar 100 101 90 92 1000)) < 50
   \<and> analyzeSMC (replicate 10 (mk_bar 100 101 90 92 1000)) = getDefaultAnalysis
   \<and> smc_marketStructure (analyzeSMC (replicate 10 (mk_bar 100 101 90 92 1000))) = RANGING
   \<and> smc_overallConfidence (analyzeSMC (replicate 10 (mk_bar 100 101 90 92 1000))) = 0
   \<and> smc_recommendation (analyzeSMC (replicate 10 (mk_bar 100 101 90 92 1000))) = HOLD"
proof -
  have h: "length (replicate 10 (mk_bar 100 101 90 92 1000)) < 50" by simp
  show ?thesis using h analyzeSMC_short [OF h] by blast
qed

lemma count_where_insert:
  "count_where P (xs @ x # ys) = count_where P (xs @ ys) + (if P x then 1 else 0)"
  by (simp add: count_where_def)

text \<open>
  Claim C8. With all other evidence fixed, adding one more strong bullish order block
  anywhere in the order-block list raises \<^verbatim>\<open>bullishScore\<close> by 20, and adding one more
  strong bearish order block raises \<^verbatim>\<open>bearishScore\<close> by 20; so the directional score
  of that direction never decreases.
\<close>

theorem strong_order_block_monotone:
  "bullishScore sw (xs @ \<lparr>ob_type = SIDE_BULLISH, ob_high = h, ob_low = l, ob_timestamp = t,
                          ob_strength = STRONG\<rparr> # ys) fvg ms bos choch ic
     = bullishScore sw (xs @ ys) fvg ms bos choch ic + 20
   \<and> bullishScore sw (xs @ ys) fvg ms bos choch ic
     \<le> bullishScore sw (xs @ \<lparr>ob_type = SIDE_BULLISH, ob_high = h, ob_low = l, ob_timestamp = t,
                          ob_strength = STRONG\<rparr> # ys) fvg ms bos choch ic
   \<and> bearishScore sw (xs @ \<lparr>ob_type = SIDE_BEARISH, ob_high = h, ob_low = l, ob_timestamp = t,
                          ob_strength = STRONG\<rparr> # ys) fvg ms bos choch ic
     = bearishScore sw (xs @ ys) fvg ms bos choch ic + 20
   \<and> bearishScore sw (xs @ ys) fvg ms bos choch ic
     \<le> bearishScore sw (xs @ \<lparr>ob_type = SIDE_BEARISH, ob_high = h, ob_low = l, ob_timestamp = t,
                          ob_strength = STRONG\<rparr> # ys) fvg ms bos choch ic"
  by (simp add: bullishScore_def bearishScore_def Let_def count_where_insert)

lemma bullishScore_nonneg: "0 \<le> bullishScore sw ob fvg ms bos choch ic"
  by (simp add: bullishScore_def Let_def)

lemma bearishScore_nonneg: "0 \<le> bearishScore sw ob fvg ms bos choch ic"
  by (simp add: bearishScore_def Let_def)

text \<open>
  Claim C9, as amended. For every collection of structure evidence, the confidence
  returned by \<^verbatim>\<open>calculateSMCScore\<close> is 0 when both sums are 0. Otherwise it is
  \<^verbatim>\<open>Math.round\<close> of \<open>max(bullishSum, bearishSum) / (bullishSum + bearishSum) \<times> 100\<close> as
  double arithmetic evaluates it (the quotient and then the product, each rounded to
  the nearest double), capped at 100: an integer between 50 and 100 that differs from
  the exact value of the expression by at most \<open>1/2 + 2\<^sup>-\<^sup>4\<^sup>6\<close>. The divisor is
  replaced by 1 when the total is 0, so the computation is total.
\<close>

theorem smc_confidence_formula:
  "fst (calculateSMCScore sw ob fvg ms bos choch ic sdz) =
     (if bullishScore sw ob fvg ms bos choch ic = 0 \<and> bearishScore sw ob fvg ms bos choch ic = 0
      then 0
      else min 100 (js_round (to_double (to_double
             (max (bullishScore sw ob fvg ms bos choch ic) (bearishScore sw ob fvg ms bos choch ic)
                / (bullishScore sw ob fvg ms bos choch ic + bearishScore sw ob fvg ms bos choch ic))
             * 100))))
   \<and> fst (calculateSMCScore sw ob fvg ms bos choch ic sdz) \<in> \<int>
   \<and> (if bullishScore sw ob fvg ms bos choch ic = 0 \<and> bearishScore sw ob fvg ms bos choch ic = 0
       then fst (calculateSMCScore sw ob fvg ms bos choch ic sdz) = 0
       else 50 \<le> fst (calculateSMCScore sw ob fvg ms bos choch ic sdz)
          \<and> fst (calculateSMCScore sw ob fvg ms bos choch ic sdz) \<le> 100
          \<and> \<bar>fst (calculateSMCScore sw ob fvg ms bos choch ic sdz)
               - max (bullishScore sw ob fvg ms bos choch ic) (bearishScore sw ob fvg ms bos choch ic)
                   / (bullishScore sw ob fvg ms bos choch ic + bearishScore sw ob fvg ms bos choch ic)
                   * 100\<bar>
              \<le> 1 / 2 + 1 / 2 ^ 46)"
proof -
  let ?b = "bullishScore sw ob fvg ms bos choch ic"
  let ?s = "bearishScore sw ob fvg ms bos choch ic"
  let ?c = "fst (calculateSMCScore sw ob fvg ms bos choch ic sdz)"
  have nn: "0 \<le> ?b" "0 \<le> ?s"
    by (rule bullishScore_nonneg, rule bearishScore_nonneg)
  have conf: "?c = smc_confidence ?b ?s"
    by (simp add: calculateSMCScore_def Let_def)
  have int: "?c \<in> \<int>"
    unfolding conf smc_confidence_def Let_def js_round_def
    by (simp add: min_def)
  show ?thesis
  proof (cases "?b = 0 \<and> ?s = 0")
    case True
    then have "?c = 0"
      by (simp add: conf smc_confidence_def or_one_def js_round_def to_double_zero)
    with int show ?thesis
      unfolding if_P [OF True] by blast
  next
    case False
    then have pos: "0 < ?b + ?s" using nn by linarith
    let ?q = "max ?b ?s / (?b + ?s)"
    have q: "1 / 2 \<le> ?q" "?q \<le> 1"
      using pos nn by (simp_all add: field_simps max_def)
    note d = double_percentage [OF q]
    have eq: "?c = js_round (to_double (to_double ?q * 100))"
      using pos d by (simp add: conf smc_confidence_def or_one_def Let_def)
    have c1: "?c = min 100 (js_round (to_double (to_double ?q * 100)))"
      using d eq by simp
    have c2: "50 \<le> ?c \<and> ?c \<le> 100 \<and> \<bar>?c - ?q * 100\<bar> \<le> 1 / 2 + 1 / 2 ^ 46"
      using d unfolding eq .
    show ?thesis
      unfolding if_not_P [OF False] using c1 int c2 by blast
  qed
qed

lemma smc_confidence_20_10: "smc_confidence 20 10 = 67"
proof -
  have 1: "max (20::real) 10 / or_one (20 + 10) = 2 / 3"
    by (simp add: or_one_def)
  have 2: "to_double (2 / 3) = 6004799503160661 / 9007199254740992"
    using to_double_below_one [of "2 / 3"] by (simp add: round_half_even_def)
  have 3: "6004799503160661 / 9007199254740992 * 100 = (150119987579016525 / 2251799813685248 :: real)"
    by simp
  have 4: "to_double (150119987579016525 / 2251799813685248) = 2345624805922133 / 35184372088832"
    using to_double_binade [of 6 "150119987579016525 / 2251799813685248"]
    by (simp add: round_half_even_def)
  have 5: "js_round (2345624805922133 / 35184372088832) = 67"
    by (simp add: js_round_def)
  show ?thesis
    unfolding smc_confidence_def Let_def 1 2 3 4 5 by simp
qed

lemma smc_confidence_115_85: "smc_confidence 115 85 = 57"
proof -
  have 1: "max (115::real) 85 / or_one (115 + 85) = 23 / 40"
    by (simp add: or_one_def)
  have 2: "to_double (23 / 40) = 2589569785738035 / 4503599627370496"
    using to_double_below_one [of "23 / 40"] by (simp add: round_half_even_def)
  have 3: "2589569785738035 / 4503599627370496 * 100 = (64739244643450875 / 1125899906842624 :: real)"
    by simp
  have 4: "to_double (64739244643450875 / 1125899906842624) = 8092405580431359 / 140737488355328"
    using to_double_binade [of 5 "64739244643450875 / 1125899906842624"]
    by (simp add: round_half_even_def)
  have 5: "js_round (8092405580431359 / 140737488355328) = 57"
    by (simp add: js_round_def)
  show ?thesis
    unfolding smc_confidence_def Let_def 1 2 3 4 5 by simp
qed

text \<open>
  Claim C9 as stated fails. With one strong bullish order block (sum 20) and one
  bearish fair value gap (sum 10) the confidence is 67, while
  \<open>max / (bullishSum + bearishSum) \<times> 100\<close> is \<open>200 / 3\<close>. With sums 115 and 85 the exact
  value is 57.5; the doubles give \<open>57.49999999999999\<close> and the confidence is 57.
\<close>

theorem smc_confidence_rounds:
  "fst (calculateSMCScore [] one_strong_block one_bearish_gap RANGING None None [] []) = 67
   \<and> bullishScore [] one_strong_block one_bearish_gap RANGING None None [] = 20
   \<and> bearishScore [] one_strong_block one_bearish_gap RANGING None None [] = 10
   \<and> min 100 (max (20::real) 10 / (20 + 10) * 100) = 200 / 3
   \<and> fst (calculateSMCScore tie_sweeps tie_blocks tie_gaps MS_BULLISH (Some tie_bos)
            (Some tie_choch) tie_candles []) = 57
   \<and> bullishScore tie_sweeps tie_blocks tie_gaps MS_BULLISH (Some tie_bos) (Some tie_choch)
         tie_candles = 115
   \<and> bearishScore tie_sweeps tie_blocks tie_gaps MS_BULLISH (Some tie_bos) (Some tie_choch)
         tie_candles = 85
   \<and> min 100 (max (115::real) 85 / (115 + 85) * 100) = 115 / 2"
proof -
  have a: "bullishScore [] one_strong_block one_bearish_gap RANGING None None [] = 20"
    "bearishScore [] one_strong_block one_bearish_gap RANGING None None [] = 10"
    by (simp_all add: bullishScore_def bearishScore_def count_where_def one_strong_block_def
        one_bearish_gap_def Let_def)
  have b: "bullishScore tie_sweeps tie_blocks tie_gaps MS_BULLISH (Some tie_bos) (Some tie_choch)
         tie_candles = 115"
    "bearishScore tie_sweeps tie_blocks tie_gaps MS_BULLISH (Some tie_bos) (Some tie_choch)
         tie_candles = 85"
    by (simp_all add: bullishScore_def bearishScore_def count_where_def tie_sweeps_def
        tie_blocks_def tie_gaps_def tie_bos_def tie_choch_def tie_candles_def Let_def)
  show ?thesis
    by (simp add: calculateSMCScore_def Let_def a b smc_confidence_20_10 smc_confidence_115_85)
qed

section \<open>Properties of the operator game detector\<close>

lemma first_fired_Cons:
  "first_fired (td # ds) cs = (case snd td cs of Some v \<Rightarrow> Some v | None \<Rightarrow> first_fired ds cs)"
  by (cases "snd td cs") (simp_all add: first_fired_def)

lemma first_fired_Nil: "first_fired [] cs = None"
  by (simp add: first_fired_def)

lemma detectAccumulation_type: "reports_own_type cs (ACCUMULATION, detectAccumulation)"
  by (simp add: reports_own_type_def detectAccumulation_def Let_def)

lemma detectDistribution_type: "reports_own_type cs (DISTRIBUTION, detectDistribution)"
  by (simp add: reports_own_type_def detectDistribution_def Let_def)

lemma detectBullTrap_type: "reports_own_type cs (BULL_TRAP, detectBullTrap)"
  by (simp add: reports_own_type_def detectBullTrap_def Let_def)

lemma detectBearTrap_type: "reports_own_type cs (BEAR_TRAP, detectBearTrap)"
  by (simp add: reports_own_type_def detectBearTrap_def Let_def)

lemma detectPumpAndDump_type: "reports_own_type cs (PUMP_DUMP, detectPumpAndDump)"
  by (simp add: reports_own_type_def detectPumpAndDump_def Let_def)

lemma detectFakeBreakout_type: "reports_own_type cs (BREAKOUT_FAKE, detectFakeBreakout)"
  by (simp add: reports_own_type_def detectFakeBreakout_def Let_def)

lemma detectShortSqueeze_type: "reports_own_type cs (SQUEEZE, detectShortSqueeze)"
  by (simp add: reports_own_type_def detectShortSqueeze_def Let_def)

text \<open>
  Claim C4. On fewer than 10 bars \<^verbatim>\<open>detectOperatorGame\<close> returns null. On 10 bars or
  more it returns the verdict of the first detector that fires, in the fixed order
  accumulation, distribution, bull trap, bear trap, pump-and-dump, fake breakout,
  short squeeze, and null when none fires. The result is an optional verdict, so at
  most one verdict is returned, and each detector reports only its own type.
\<close>

theorem detectOperatorGame_priority:
  "detectOperatorGame cs = (if length cs < 10 then None else first_fired detectors cs)
   \<and> list_all (reports_own_type cs) detectors
   \<and> map fst detectors =
       [ACCUMULATION, DISTRIBUTION, BULL_TRAP, BEAR_TRAP, PUMP_DUMP, BREAKOUT_FAKE, SQUEEZE]"
proof -
  have "detectOperatorGame cs = (if length cs < 10 then None else first_fired detectors cs)"
    by (simp add: detectOperatorGame_def detectors_def first_fired_Cons first_fired_Nil
        split: option.splits)
  moreover have "list_all (reports_own_type cs) detectors"
    by (simp add: detectors_def detectAccumulation_type detectDistribution_type
        detectBullTrap_type detectBearTrap_type detectPumpAndDump_type detectFakeBreakout_type
        detectShortSqueeze_type)
  moreover have "map fst detectors =
       [ACCUMULATION, DISTRIBUTION, BULL_TRAP, BEAR_TRAP, PUMP_DUMP, BREAKOUT_FAKE, SQUEEZE]"
    by (simp add: detectors_def)
  ultimately show ?thesis by blast
qed

text \<open>
  On \<^const>\<open>squeeze_series\<close> the first six detectors return nothing and the seventh
  fires.
\<close>

lemma squeeze_series_detectors:
  "detectAccumulation squeeze_series = None"
  "detectDistribution squeeze_series = None"
  "detectBullTrap squeeze_series = None"
  "detectBearTrap squeeze_series = None"
  "detectFakeBreakout squeeze_series = None"
  by (simp_all add: detectAccumulation_def detectDistribution_def detectBullTrap_def
      detectBearTrap_def detectFakeBreakout_def squeeze_series_def mk_bar_def slice_last_def
      reduce_sum_def count_where_def Let_def)

lemma squeeze_series_pump: "detectPumpAndDump squeeze_series = None"
  by (simp add: detectPumpAndDump_def squeeze_series_def mk_bar_def slice_last_def
      max_gain_step_def Let_def upt_rec_numeral)

lemma squeeze_series_squeeze:
  "detectShortSqueeze squeeze_series =
     Some \<lparr>og_type = SQUEEZE, og_confidence = HIGH, og_action = ACT_BUY\<rparr>"
  by (simp add: detectShortSqueeze_def squeeze_series_def mk_bar_def slice_last_def slice_def
      reduce_sum_def Let_def)

text \<open>
  On \<^const>\<open>pump_squeeze_series\<close> both the pump-and-dump detector and the short-squeeze
  detector fire, and the four detectors before pump-and-dump do not (the traps need
  15 bars).
\<close>

lemma pump_squeeze_series_detectors:
  "detectAccumulation pump_squeeze_series = None"
  "detectDistribution pump_squeeze_series = None"
  "detectBullTrap pump_squeeze_series = None"
  "detectBearTrap pump_squeeze_series = None"
  by (simp_all add: detectAccumulation_def detectDistribution_def detectBullTrap_def
      detectBearTrap_def pump_squeeze_series_def mk_bar_def slice_last_def
      reduce_sum_def count_where_def Let_def)

lemma pump_squeeze_series_pump:
  "detectPumpAndDump pump_squeeze_series =
     Some \<lparr>og_type = PUMP_DUMP, og_confidence = HIGH, og_action = AVOID\<rparr>"
  by (simp add: detectPumpAndDump_def pump_squeeze_series_def mk_bar_def slice_last_def
      max_gain_step_def Let_def upt_rec_numeral)

lemma pump_squeeze_series_squeeze:
  "detectShortSqueeze pump_squeeze_series =
     Some \<lparr>og_type = SQUEEZE, og_confidence = HIGH, og_action = ACT_BUY\<rparr>"
  by (simp add: detectShortSqueeze_def pump_squeeze_series_def mk_bar_def slice_last_def
      slice_def reduce_sum_def Let_def)

text \<open>
  The claim at three series: no bars, a series on which only the last detector fires,
  and a series on which the fifth and the seventh fire and the fifth is returned.
\<close>

theorem detectOperatorGame_priority_witness:
  "detectOperatorGame [] = None
   \<and> \<not> length squeeze_series < 10
   \<and> first_fired detectors squeeze_series
       = Some \<lparr>og_type = SQUEEZE, og_confidence = HIGH, og_action = ACT_BUY\<rparr>
   \<and> detectOperatorGame squeeze_series
       = Some \<lparr>og_type = SQUEEZE, og_confidence = HIGH, og_action = ACT_BUY\<rparr>
   \<and> \<not> length pump_squeeze_series < 10
   \<and> detectShortSqueeze pump_squeeze_series
       = Some \<lparr>og_type = SQUEEZE, og_confidence = HIGH, og_action = ACT_BUY\<rparr>
   \<and> detectOperatorGame pump_squeeze_series
       = Some \<lparr>og_type = PUMP_DUMP, og_confidence = HIGH, og_action = AVOID\<rparr>"
proof -
  have len: "\<not> length squeeze_series < 10" "\<not> length pump_squeeze_series < 10"
    by (simp_all add: squeeze_series_def pump_squeeze_series_def)
  have ff: "first_fired detectors squeeze_series
       = Some \<lparr>og_type = SQUEEZE, og_confidence = HIGH, og_action = ACT_BUY\<rparr>"
    by (simp add: detectors_def first_fired_Cons first_fired_Nil squeeze_series_detectors
        squeeze_series_pump squeeze_series_squeeze)
  have ff2: "first_fired detectors pump_squeeze_series
       = Some \<lparr>og_type = PUMP_DUMP, og_confidence = HIGH, og_action = AVOID\<rparr>"
    by (simp add: detectors_def first_fired_Cons first_fired_Nil pump_squeeze_series_detectors
        pump_squeeze_series_pump)
  show ?thesis
    using detectOperatorGame_priority [of "[]"] detectOperatorGame_priority [of squeeze_series]
      detectOperatorGame_priority [of pump_squeeze_series] len ff ff2
    by (simp add: pump_squeeze_series_squeeze)
qed

section \<open>Properties of the multi-timeframe analysis\<close>

subsection \<open>Resampling\<close>

lemma aggregate_chunk_fields:
  assumes "g \<noteq> []"
  shows "c_open (aggregate_chunk g) = c_open (hd g)"
    and "c_close (aggregate_chunk g) = c_close (last g)"
    and "c_high (aggregate_chunk g) = Max (c_high ` set g)"
    and "c_low (aggregate_chunk g) = Min (c_low ` set g)"
    and "c_volume (aggregate_chunk g) = sum_list (map c_volume g)"
    and "c_timestamp (aggregate_chunk g) = c_timestamp (hd g)"
  using assms
  by (simp_all add: aggregate_chunk_def hd_conv_nth last_conv_nth max_list_Max min_list_Min
      reduce_sum_sum_list)

lemma upt_shift: "0 < n \<Longrightarrow> map f [0 ..< n] = f 0 # map (\<lambda>k. f (Suc k)) [0 ..< n - 1]"
  by (cases n) (simp_all add: upt_conv_Cons map_Suc_upt [symmetric] del: upt_Suc)

lemma aggregate_loop_eq:
  "aggregate_loop cs i acc =
     acc @ map (\<lambda>k. aggregate_chunk (slice (i + 4 * k) (i + 4 * k + 4) cs))
             [0 ..< (length cs - i + 3) div 4]"
proof (induction cs i acc rule: aggregate_loop.induct)
  case (1 candles i aggregated)
  show ?case
  proof (cases "i < length candles")
    case False
    then have "(length candles - i + 3) div 4 = 0" by simp
    with False show ?thesis by (simp add: aggregate_loop.simps [of candles i aggregated])
  next
    case True
    let ?chunk = "slice i (i + 4) candles"
    have ne: "length ?chunk \<noteq> 0" using True by (simp add: slice_length)
    have n: "0 < (length candles - i + 3) div 4" using True by simp
    have n1: "(length candles - (i + 4) + 3) div 4 = (length candles - i + 3) div 4 - 1"
      using True by simp
    have "aggregate_loop candles i aggregated =
            aggregate_loop candles (i + 4) (aggregated @ [aggregate_chunk ?chunk])"
      using True ne by (simp add: aggregate_loop.simps [of candles i aggregated] Let_def)
    also have "\<dots> = (aggregated @ [aggregate_chunk ?chunk]) @
        map (\<lambda>k. aggregate_chunk (slice (i + 4 + 4 * k) (i + 4 + 4 * k + 4) candles))
          [0 ..< (length candles - (i + 4) + 3) div 4]"
      using "1.IH"(2) [OF True refl] ne by simp
    also have "\<dots> = aggregated @ (aggregate_chunk ?chunk #
        map (\<lambda>k. aggregate_chunk (slice (i + 4 * Suc k) (i + 4 * Suc k + 4) candles))
          [0 ..< (length candles - i + 3) div 4 - 1])"
      unfolding n1 by (simp add: add.assoc)
    also have "\<dots> = aggregated @
        map (\<lambda>k. aggregate_chunk (slice (i + 4 * k) (i + 4 * k + 4) candles))
          [0 ..< (length candles - i + 3) div 4]"
      using upt_shift [OF n, of "\<lambda>k. aggregate_chunk (slice (i + 4 * k) (i + 4 * k + 4) candles)"]
      by simp
    finally show ?thesis .
  qed
qed

lemma aggregateTo4H_eq:
  "aggregateTo4H cs =
     map (\<lambda>k. aggregate_chunk (slice (4 * k) (4 * k + 4) cs)) [0 ..< (length cs + 3) div 4]"
  by (simp add: aggregateTo4H_def aggregate_loop_eq)

text \<open>
  Claim C5, as amended. The source's resampling is \<^verbatim>\<open>aggregateTo4H\<close>, with the
  grouping factor fixed at 4, and it never fails: a series of \<open>n\<close> bars gives
  \<open>\<lceil>n / 4\<rceil>\<close> bars, so an empty series gives none and a series of one to three bars
  gives one. Output bar \<open>k\<close> aggregates the group of bars \<open>4k\<close> to \<open>4k + 3\<close> (fewer at
  the end of the series): its open is the group's first open, its close the group's
  last close, its high and low the group's extrema, its volume the sum of the group's
  volumes.
\<close>

theorem aggregateTo4H_groups:
  "length (aggregateTo4H cs) = (length cs + 3) div 4
   \<and> (\<forall>k < length (aggregateTo4H cs).
        slice (4 * k) (4 * k + 4) cs \<noteq> []
        \<and> length (slice (4 * k) (4 * k + 4) cs) = min 4 (length cs - 4 * k)
        \<and> c_open (aggregateTo4H cs ! k) = c_open (hd (slice (4 * k) (4 * k + 4) cs))
        \<and> c_close (aggregateTo4H cs ! k) = c_close (last (slice (4 * k) (4 * k + 4) cs))
        \<and> c_high (aggregateTo4H cs ! k) = Max (c_high ` set (slice (4 * k) (4 * k + 4) cs))
        \<and> c_low (aggregateTo4H cs ! k) = Min (c_low ` set (slice (4 * k) (4 * k + 4) cs))
        \<and> c_volume (aggregateTo4H cs ! k) = sum_list (map c_volume (slice (4 * k) (4 * k + 4) cs)))"
proof -
  have len: "length (aggregateTo4H cs) = (length cs + 3) div 4"
    by (simp add: aggregateTo4H_eq)
  have "slice (4 * k) (4 * k + 4) cs \<noteq> []
        \<and> length (slice (4 * k) (4 * k + 4) cs) = min 4 (length cs - 4 * k)
        \<and> c_open (aggregateTo4H cs ! k) = c_open (hd (slice (4 * k) (4 * k + 4) cs))
        \<and> c_close (aggregateTo4H cs ! k) = c_close (last (slice (4 * k) (4 * k + 4) cs))
        \<and> c_high (aggregateTo4H cs ! k) = Max (c_high ` set (slice (4 * k) (4 * k + 4) cs))
        \<and> c_low (aggregateTo4H cs ! k) = Min (c_low ` set (slice (4 * k) (4 * k + 4) cs))
        \<and> c_volume (aggregateTo4H cs ! k) = sum_list (map c_volume (slice (4 * k) (4 * k + 4) cs))"
    if k: "k < length (aggregateTo4H cs)" for k
  proof -
    from k len have k4: "k < (length cs + 3) div 4" by simp
    then have lt: "4 * k < length cs" by arith
    have l: "length (slice (4 * k) (4 * k + 4) cs) = min 4 (length cs - 4 * k)"
      by (simp add: slice_length)
    with lt have ne: "slice (4 * k) (4 * k + 4) cs \<noteq> []"
      by (metis length_0_conv min_less_iff_conj not_less_zero zero_less_diff zero_less_numeral)
    have nth: "aggregateTo4H cs ! k = aggregate_chunk (slice (4 * k) (4 * k + 4) cs)"
      using k4 by (simp add: aggregateTo4H_eq)
    show ?thesis
      unfolding nth using ne l aggregate_chunk_fields [OF ne] by simp
  qed
  with len show ?thesis by blast
qed

lemma five_bars_slices:
  "slice (4 * 0) (4 * 0 + 4) five_bars =
     [mk_bar 100 102 99 101 10, mk_bar 101 105 100 104 20, mk_bar 104 104 98 99 30,
      mk_bar 99 100 97 98 40]"
  "slice (4 * 1) (4 * 1 + 4) five_bars = [mk_bar 98 99 96 97 50]"
  by (simp_all add: slice_def five_bars_def)

text \<open>Five bars give two: the first four aggregated, and the fifth alone.\<close>

theorem aggregateTo4H_groups_witness:
  "length (aggregateTo4H five_bars) = 2
   \<and> c_open (aggregateTo4H five_bars ! 0) = 100
   \<and> c_close (aggregateTo4H five_bars ! 0) = 98
   \<and> c_high (aggregateTo4H five_bars ! 0) = 105
   \<and> c_low (aggregateTo4H five_bars ! 0) = 97
   \<and> c_volume (aggregateTo4H five_bars ! 0) = 100
   \<and> c_open (aggregateTo4H five_bars ! 1) = 98
   \<and> c_close (aggregateTo4H five_bars ! 1) = 97
   \<and> c_volume (aggregateTo4H five_bars ! 1) = 50"
proof -
  note t = aggregateTo4H_groups [of five_bars]
  have len: "length (aggregateTo4H five_bars) = 2"
    using t by (simp add: five_bars_def)
  from t len have k0:
    "c_open (aggregateTo4H five_bars ! 0) = c_open (hd (slice (4 * 0) (4 * 0 + 4) five_bars))
      \<and> c_close (aggregateTo4H five_bars ! 0) = c_close (last (slice (4 * 0) (4 * 0 + 4) five_bars))
      \<and> c_high (aggregateTo4H five_bars ! 0) = Max (c_high ` set (slice (4 * 0) (4 * 0 + 4) five_bars))
      \<and> c_low (aggregateTo4H five_bars ! 0) = Min (c_low ` set (slice (4 * 0) (4 * 0 + 4) five_bars))
      \<and> c_volume (aggregateTo4H five_bars ! 0)
          = sum_list (map c_volume (slice (4 * 0) (4 * 0 + 4) five_bars))"
    by (metis zero_less_numeral)
  from t len have k1:
    "c_open (aggregateTo4H five_bars ! 1) = c_open (hd (slice (4 * 1) (4 * 1 + 4) five_bars))
      \<and> c_close (aggregateTo4H five_bars ! 1) = c_close (last (slice (4 * 1) (4 * 1 + 4) five_bars))
      \<and> c_volume (aggregateTo4H five_bars ! 1)
          = sum_list (map c_volume (slice (4 * 1) (4 * 1 + 4) five_bars))"
    by (metis one_less_numeral_iff semiring_norm(76))
  show ?thesis
    using len k0 k1 unfolding five_bars_slices by (simp add: mk_bar_def)
qed

text \<open>
  Claim C5 as stated fails: on a series of one bar, shorter than the factor 4, the
  specification's \<^verbatim>\<open>resample\<close> fails with \<^verbatim>\<open>InsufficientData\<close>, and
  \<^verbatim>\<open>aggregateTo4H\<close> returns that bar.
\<close>

theorem aggregateTo4H_never_fails:
  "resample_spec [mk_bar 100 102 99 101 10] 4 = Inl InsufficientData
   \<and> aggregateTo4H [mk_bar 100 102 99 101 10] = [mk_bar 100 102 99 101 10]
   \<and> Inr (aggregateTo4H [mk_bar 100 102 99 101 10]) \<noteq> resample_spec [mk_bar 100 102 99 101 10] 4"
  by (simp add: resample_spec_def aggregateTo4H_eq aggregate_chunk_def slice_def mk_bar_def
      max_list_def min_list_def reduce_sum_def)

subsection \<open>Alignment\<close>

lemma trend_counts_partition:
  "length (filter is_bullish_trend ts) + length (filter is_bearish_trend ts)
     + length (filter is_neutral_trend ts) = length ts"
proof (induction ts)
  case Nil
  show ?case by simp
next
  case (Cons t ts)
  then show ?case
    by (cases t) (simp_all add: is_bullish_trend_def is_bearish_trend_def is_neutral_trend_def)
qed

lemma js_round_sixths:
  "js_round ((real (2::nat) / real (6::nat)) * 100) = 33"
  "js_round ((real (3::nat) / real (6::nat)) * 100) = 50"
  "js_round ((real (4::nat) / real (6::nat)) * 100) = 67"
  "js_round ((real (5::nat) / real (6::nat)) * 100) = 83"
  "js_round ((real (6::nat) / real (6::nat)) * 100) = 100"
  by (simp_all add: js_round_def)

lemma alignment_of_six:
  assumes "length ts = 6"
  shows "alignment_of_trends ts \<in> {33, 50, 67, 83, 100}"
proof -
  define b where "b = length (filter is_bullish_trend ts)"
  define s where "s = length (filter is_bearish_trend ts)"
  define n where "n = length (filter is_neutral_trend ts)"
  define m where "m = max (max b s) n"
  have sum6: "b + s + n = 6"
    using trend_counts_partition [of ts] assms by (simp add: b_def s_def n_def)
  have "2 \<le> m" "m \<le> 6"
    using sum6 by (auto simp: m_def)
  then have "m = 2 \<or> m = 3 \<or> m = 4 \<or> m = 5 \<or> m = 6"
    by arith
  moreover have "alignment_of_trends ts = js_round ((real m / real (6::nat)) * 100)"
    using assms by (simp add: alignment_of_trends_def Let_def m_def b_def s_def n_def)
  ultimately show ?thesis
    using js_round_sixths by auto
qed

text \<open>
  Claim C10. Whatever the six per-resolution trend classes are, the alignment
  percentage computed by \<^verbatim>\<open>calculateAlignment\<close> is one of 33, 50, 67, 83 and 100:
  the bullish, bearish and neutral counts partition the six resolutions, so the
  largest is at least 2, and the alignment is never below 33.
\<close>

theorem calculateAlignment_values:
  "calculateAlignment t \<in> {33, 50, 67, 83, 100} \<and> 33 \<le> calculateAlignment t"
proof -
  have "length (map ts_trend (tf_values t)) = 6"
    by (simp add: tf_values_def tf_entries_def)
  then have "alignment_of_trends (map ts_trend (tf_values t)) \<in> {33, 50, 67, 83, 100}"
    by (rule alignment_of_six)
  then show ?thesis
    by (auto simp: calculateAlignment_def)
qed

end
